theory Spec2Isabelle
  imports Complex_Main
begin

section \<open>JavaScript values used by the toolkit server\<close>

text \<open>
  Times are the integer millisecond readings of \<open>Date.now()\<close>. Every reading is passed
  to the model as an argument, one per call of \<open>Date.now()\<close> in the source. A JavaScript
  number that can be \<open>NaN\<close> is a \<open>js_number\<close>.
\<close>

datatype js_number = Num int | NaN

text \<open>\<open>Math.ceil(x / 1000)\<close> on an integer \<open>x\<close>.\<close>

definition ceil_div1000 :: "int \<Rightarrow> int" where
  "ceil_div1000 x = - ((- x) div 1000)"

text \<open>Decimal rendering of an integer, as a template literal does it.\<close>

definition digit_char :: "nat \<Rightarrow> char" where
  "digit_char d = ''0123456789'' ! d"

function show_nat :: "nat \<Rightarrow> string" where
  "show_nat n = (if n < 10 then [digit_char n] else show_nat (n div 10) @ [digit_char (n mod 10)])"
  by pat_completeness auto
termination
  by (relation "measure id") auto

declare show_nat.simps [simp del]

definition show_int :: "int \<Rightarrow> string" where
  "show_int i = (if i < 0 then CHR ''-'' # show_nat (nat (- i)) else show_nat (nat i))"

definition show_number :: "js_number \<Rightarrow> string" where
  "show_number x = (case x of Num i \<Rightarrow> show_int i | NaN \<Rightarrow> ''NaN'')"

text \<open>\<open>s.startsWith(p)\<close>.\<close>

definition startsWith :: "string \<Rightarrow> string \<Rightarrow> bool" where
  "startsWith s p = (take (length p) s = p)"

section \<open>Errors (utils/errors.ts)\<close>

text \<open>
  The three members of the SDK's \<open>ErrorCode\<close> enum that the repository uses, with their
  JSON-RPC numbers.
\<close>

datatype ErrorCode = MethodNotFound | InvalidParams | InternalError

definition code_number :: "ErrorCode \<Rightarrow> int" where
  "code_number c = (case c of MethodNotFound \<Rightarrow> - 32601 | InvalidParams \<Rightarrow> - 32602
     | InternalError \<Rightarrow> - 32603)"

text \<open>
  The \<open>data\<close> payload of a \<open>McpToolError\<close>: the rate limiter's \<open>{resetInSeconds}\<close> object, or any
  other value, kept as its JSON text.
\<close>

datatype error_data = ResetInSeconds js_number | OtherData string

text \<open>
  A thrown value: a \<open>McpToolError\<close> (code, message, optional data), any other \<open>Error\<close> with its
  message, or a value that is not an \<open>Error\<close> instance.
\<close>

datatype thrown = McpToolError ErrorCode string "error_data option" | Error string | NonError

record content_item =
  ctype :: string
  ctext :: string

definition json_of_data :: "error_data \<Rightarrow> string" where
  "json_of_data d = (case d of
      ResetInSeconds (Num i) \<Rightarrow> ''{\"resetInSeconds\":'' @ show_int i @ ''}''
    | ResetInSeconds NaN \<Rightarrow> ''{\"resetInSeconds\":null}''
    | OtherData s \<Rightarrow> s)"

text \<open>\<open>handleToolError\<close>: the content of the \<open>{isError: true, content}\<close> object it returns.\<close>

definition handleToolError :: "thrown \<Rightarrow> content_item list" where
  "handleToolError e = (case e of
      McpToolError c m d \<Rightarrow>
        [\<lparr>ctype = ''text'',
          ctext = ''Error '' @ show_int (code_number c) @ '': '' @ m @
            (case d of None \<Rightarrow> [] | Some x \<Rightarrow> [CHR 0x0A] @ ''Details: '' @ json_of_data x)\<rparr>]
    | Error m \<Rightarrow> [\<lparr>ctype = ''text'', ctext = ''Internal error: '' @ m\<rparr>]
    | NonError \<Rightarrow> [\<lparr>ctype = ''text'', ctext = ''Internal error: Unknown error''\<rparr>])"

section \<open>The sliding-window rate limiter (utils/rate-limiter.ts)\<close>

record RateLimitConfig =
  cfg_maxRequests :: int
  cfg_windowMs :: int
  cfg_errorMessage :: "string option"

record RateLimiter =
  requests :: "string \<rightharpoonup> int list"
  maxRequests :: int
  windowMs :: int
  errorMessage :: string

text \<open>The constructor; \<open>config.errorMessage || default\<close> also replaces the empty string.\<close>

definition new_RateLimiter :: "RateLimitConfig \<Rightarrow> RateLimiter" where
  "new_RateLimiter config =
     \<lparr>requests = Map.empty,
      maxRequests = cfg_maxRequests config,
      windowMs = cfg_windowMs config,
      errorMessage = (case cfg_errorMessage config of
          None \<Rightarrow> ''Rate limit exceeded. Please try again later.''
        | Some m \<Rightarrow> if m = [] then ''Rate limit exceeded. Please try again later.'' else m)\<rparr>"

text \<open>\<open>this.requests.get(key) || []\<close>\<close>

definition timestamps_of :: "RateLimiter \<Rightarrow> string \<Rightarrow> int list" where
  "timestamps_of rl key = (case requests rl key of None \<Rightarrow> [] | Some ts \<Rightarrow> ts)"

text \<open>\<open>timestamps.filter(time => now - time < this.windowMs)\<close>\<close>

definition validTimestamps :: "RateLimiter \<Rightarrow> int \<Rightarrow> string \<Rightarrow> int list" where
  "validTimestamps rl now key = filter (\<lambda>time. now - time < windowMs rl) (timestamps_of rl key)"

text \<open>
  \<open>checkLimit\<close>: \<open>Inl\<close> is the thrown error, \<open>Inr\<close> the limiter after the call. With no valid
  timestamp (possible only when \<open>maxRequests \<le> 0\<close>) \<open>validTimestamps[0]\<close> is \<open>undefined\<close> and
  the payload is \<open>NaN\<close>.
\<close>

definition checkLimit :: "RateLimiter \<Rightarrow> int \<Rightarrow> string \<Rightarrow> thrown + RateLimiter" where
  "checkLimit rl now key =
     (let valid = validTimestamps rl now key in
      if int (length valid) \<ge> maxRequests rl then
        (let resetTime = (case valid of [] \<Rightarrow> NaN
                          | oldestRequest # _ \<Rightarrow> Num (ceil_div1000 (oldestRequest + windowMs rl - now)))
         in Inl (McpToolError InternalError (errorMessage rl) (Some (ResetInSeconds resetTime))))
      else Inr (rl\<lparr>requests := (requests rl)(key \<mapsto> valid @ [now])\<rparr>))"

definition getRemainingRequests :: "RateLimiter \<Rightarrow> int \<Rightarrow> string \<Rightarrow> int" where
  "getRemainingRequests rl now key =
     max 0 (maxRequests rl - int (length (validTimestamps rl now key)))"

definition getTimeToReset :: "RateLimiter \<Rightarrow> int \<Rightarrow> string \<Rightarrow> int" where
  "getTimeToReset rl now key =
     (case validTimestamps rl now key of [] \<Rightarrow> 0
      | oldest # _ \<Rightarrow> max 0 (oldest + windowMs rl - now))"

text \<open>
  A sequence of \<open>checkLimit\<close> calls, each with its clock reading and key. The result lists,
  per call, whether it was admitted, and the limiter after the last call.
\<close>

fun checkLimits :: "RateLimiter \<Rightarrow> (int \<times> string) list \<Rightarrow> bool list \<times> RateLimiter" where
  "checkLimits rl [] = ([], rl)"
| "checkLimits rl ((now, key) # cs) =
     (case checkLimit rl now key of
        Inl e \<Rightarrow> (let (bs, rl') = checkLimits rl cs in (False # bs, rl'))
      | Inr rl1 \<Rightarrow> (let (bs, rl') = checkLimits rl1 cs in (True # bs, rl')))"

text \<open>The clock readings of the admitted calls for one key, in call order.\<close>

definition admitted :: "RateLimiter \<Rightarrow> (int \<times> string) list \<Rightarrow> string \<Rightarrow> int list" where
  "admitted rl cs key =
     map (fst \<circ> fst) (filter (\<lambda>((now, k), ok). ok \<and> k = key) (zip cs (fst (checkLimits rl cs))))"

text \<open>The three limiters of the module.\<close>

definition systemRateLimiter :: RateLimiter where
  "systemRateLimiter = new_RateLimiter \<lparr>cfg_maxRequests = 100, cfg_windowMs = 60 * 1000,
     cfg_errorMessage = Some ''Too many system operations. Please try again in a moment.''\<rparr>"

definition networkRateLimiter :: RateLimiter where
  "networkRateLimiter = new_RateLimiter \<lparr>cfg_maxRequests = 50, cfg_windowMs = 60 * 1000,
     cfg_errorMessage = Some ''Too many network operations. Please try again in a moment.''\<rparr>"

definition geoRateLimiter :: RateLimiter where
  "geoRateLimiter = new_RateLimiter \<lparr>cfg_maxRequests = 45, cfg_windowMs = 60 * 1000,
     cfg_errorMessage = Some ''IP-API rate limit exceeded. Please try again in a moment.''\<rparr>"

text \<open>
  Two predicates used to reason about a run of \<open>checkLimit\<close> calls. \<open>tracks\<close>: the stored list
  for \<open>key\<close> agrees, after pruning at any reading from \<open>lo\<close> on, with the full history
  \<open>hist\<close> of admitted readings. \<open>window_bounded\<close>: no trailing window holds more than
  \<open>m\<close> readings of \<open>hist\<close>.
\<close>

definition tracks :: "RateLimiter \<Rightarrow> string \<Rightarrow> int list \<Rightarrow> int \<Rightarrow> bool" where
  "tracks rl key hist lo \<longleftrightarrow>
     (\<forall>t \<in> set hist. t \<le> lo) \<and>
     (\<forall>now. lo \<le> now \<longrightarrow> validTimestamps rl now key = filter (\<lambda>t. now - t < windowMs rl) hist)"

definition window_bounded :: "int \<Rightarrow> int \<Rightarrow> int list \<Rightarrow> bool" where
  "window_bounded w m hist \<longleftrightarrow>
     (\<forall>T. int (length (filter (\<lambda>t. T - w < t \<and> t \<le> T) hist)) \<le> m)"

section \<open>The TTL cache and the fixed-window limiter (utils/cache.ts)\<close>

record 'a CacheEntry =
  data :: 'a
  timestamp :: int

record 'a Cache =
  cache :: "string \<rightharpoonup> 'a CacheEntry"
  ttl :: int

text \<open>The constructor, with its default of five minutes.\<close>

definition new_Cache :: "int option \<Rightarrow> 'a Cache" where
  "new_Cache ttlMs = \<lparr>cache = Map.empty, ttl = (case ttlMs of None \<Rightarrow> 5 * 60 * 1000 | Some t \<Rightarrow> t)\<rparr>"

definition cache_set :: "'a Cache \<Rightarrow> int \<Rightarrow> string \<Rightarrow> 'a \<Rightarrow> 'a Cache" where
  "cache_set c now key v = c\<lparr>cache := (cache c)(key \<mapsto> \<lparr>data = v, timestamp = now\<rparr>)\<rparr>"

text \<open>\<open>get\<close> returns the value (\<open>None\<close> for \<open>null\<close>) and the cache after the call.\<close>

definition cache_get :: "'a Cache \<Rightarrow> int \<Rightarrow> string \<Rightarrow> 'a option \<times> 'a Cache" where
  "cache_get c now key =
     (case cache c key of
        None \<Rightarrow> (None, c)
      | Some entry \<Rightarrow>
          if now - timestamp entry > ttl c then (None, c\<lparr>cache := (cache c)(key := None)\<rparr>)
          else (Some (data entry), c))"

definition cache_clear :: "'a Cache \<Rightarrow> 'a Cache" where
  "cache_clear c = c\<lparr>cache := Map.empty\<rparr>"

definition cache_prune :: "'a Cache \<Rightarrow> int \<Rightarrow> 'a Cache" where
  "cache_prune c now =
     c\<lparr>cache := (\<lambda>key. case cache c key of
                      None \<Rightarrow> None
                    | Some entry \<Rightarrow> if now - timestamp entry > ttl c then None else Some entry)\<rparr>"

text \<open>
  The class \<open>RateLimiter\<close> of utils/cache.ts, a fixed-window counter. It is a different class
  from the sliding-window limiter above, so its model carries another name.
\<close>

record FixedWindowLimiter =
  fw_windowMs :: int
  fw_maxRequests :: int
  fw_requests :: int
  fw_resetTime :: int

definition new_FixedWindowLimiter :: "int \<Rightarrow> int \<Rightarrow> int \<Rightarrow> FixedWindowLimiter" where
  "new_FixedWindowLimiter maxReq window now =
     \<lparr>fw_windowMs = window, fw_maxRequests = maxReq, fw_requests = 0, fw_resetTime = now + window\<rparr>"

definition canMakeRequest :: "FixedWindowLimiter \<Rightarrow> int \<Rightarrow> bool \<times> FixedWindowLimiter" where
  "canMakeRequest l now =
     (let l1 = (if now \<ge> fw_resetTime l
                then l\<lparr>fw_requests := 0, fw_resetTime := now + fw_windowMs l\<rparr> else l)
      in (fw_requests l1 < fw_maxRequests l1, l1))"

definition incrementRequests :: "FixedWindowLimiter \<Rightarrow> FixedWindowLimiter" where
  "incrementRequests l = l\<lparr>fw_requests := fw_requests l + 1\<rparr>"

definition fw_getRemainingRequests :: "FixedWindowLimiter \<Rightarrow> int \<Rightarrow> int \<times> FixedWindowLimiter" where
  "fw_getRemainingRequests l now =
     (let l1 = (if now \<ge> fw_resetTime l
                then l\<lparr>fw_requests := 0, fw_resetTime := now + fw_windowMs l\<rparr> else l)
      in (max 0 (fw_maxRequests l1 - fw_requests l1), l1))"

definition fw_getTimeToReset :: "FixedWindowLimiter \<Rightarrow> int \<Rightarrow> int" where
  "fw_getTimeToReset l now = max 0 (fw_resetTime l - now)"

section \<open>The geolocation tool (tools/geo.ts)\<close>

record GeoLocation =
  gl_query :: string
  gl_status :: string
  gl_country :: string
  gl_countryCode :: string
  gl_region :: string
  gl_regionName :: string
  gl_city :: string
  gl_zip :: string
  gl_lat :: real
  gl_lon :: real
  gl_timezone :: string
  gl_offset :: int
  gl_isp :: string
  gl_org :: string
  gl_as :: string

record RateLimitInfo =
  ri_remaining :: js_number
  ri_ttl :: js_number

text \<open>
  What the network answers to one \<open>fetch\<close>: the call (or the parsing of its body) throws, or
  it gives the parsed body and the numeric readings of the headers \<open>X-Rl\<close> and \<open>X-Ttl\<close>
  (\<open>None\<close> for an absent header).
\<close>

datatype fetch_outcome =
    FetchThrows thrown
  | FetchOk GeoLocation "js_number option" "js_number option"

definition fetchGeoData :: "fetch_outcome \<Rightarrow> string \<Rightarrow> thrown + (GeoLocation \<times> RateLimitInfo)" where
  "fetchGeoData net query =
     (case net of
        FetchThrows e \<Rightarrow> Inl e
      | FetchOk d xrl xttl \<Rightarrow>
          Inr (d, \<lparr>ri_remaining = (case xrl of None \<Rightarrow> Num 0 | Some n \<Rightarrow> n),
                   ri_ttl = (case xttl of None \<Rightarrow> Num 0 | Some n \<Rightarrow> n)\<rparr>))"

text \<open>The module state of tools/geo.ts, and the log of the queries fetched from the service.\<close>

record geo_state =
  geoCache :: "GeoLocation Cache"
  rateLimiter :: FixedWindowLimiter
  fetched :: "string list"

text \<open>The readings of \<open>Date.now()\<close> during one handler call, in the order of the calls.\<close>

record geo_clock =
  t_get :: int
  t_can :: int
  t_reset :: int
  t_set :: int

text \<open>The object the handler serialises with \<open>JSON.stringify\<close> into its one text item.\<close>

record geo_payload =
  p_data :: GeoLocation
  p_rateLimit :: "RateLimitInfo option"
  p_source :: string

text \<open>\<open>error instanceof Error ? error.message : 'Unknown error'\<close>\<close>

definition thrown_message :: "thrown \<Rightarrow> string" where
  "thrown_message e = (case e of McpToolError c m d \<Rightarrow> m | Error m \<Rightarrow> m
     | NonError \<Rightarrow> ''Unknown error'')"

definition geolocate :: "geo_clock \<Rightarrow> fetch_outcome \<Rightarrow> geo_state \<Rightarrow> string
    \<Rightarrow> (thrown + geo_payload) \<times> geo_state" where
  "geolocate clk net st query =
     (case cache_get (geoCache st) (t_get clk) query of
        (Some cached, c1) \<Rightarrow>
          (Inr \<lparr>p_data = cached, p_rateLimit = None, p_source = ''cache''\<rparr>, st\<lparr>geoCache := c1\<rparr>)
      | (None, c1) \<Rightarrow>
          (let st1 = st\<lparr>geoCache := c1\<rparr>;
               (ok, l1) = canMakeRequest (rateLimiter st1) (t_can clk);
               st2 = st1\<lparr>rateLimiter := l1\<rparr>
           in if \<not> ok then
                (Inl (Error (''Rate limit exceeded. Please try again in '' @
                   show_int (ceil_div1000 (fw_getTimeToReset l1 (t_reset clk))) @ '' seconds.'')), st2)
              else
                (let st3 = st2\<lparr>fetched := fetched st2 @ [query]\<rparr> in
                 case fetchGeoData net query of
                   Inl e \<Rightarrow> (Inl (Error (''Geolocation failed: '' @ thrown_message e)), st3)
                 | Inr (d, rateLimit) \<Rightarrow>
                     (let st4 = st3\<lparr>rateLimiter := incrementRequests (rateLimiter st3)\<rparr>;
                          st5 = (if gl_status d = ''success''
                                 then st4\<lparr>geoCache := cache_set (geoCache st4) (t_set clk) query d\<rparr>
                                 else st4)
                      in (Inr \<lparr>p_data = d, p_rateLimit = Some rateLimit, p_source = ''api''\<rparr>, st5)))))"

definition clearGeoCache :: "geo_state \<Rightarrow> geo_state" where
  "clearGeoCache st = st\<lparr>geoCache := cache_clear (geoCache st)\<rparr>"

section \<open>Progress notifications (utils/progress.ts)\<close>

text \<open>
  The three notifications of the reporter, by method: \<open>notifications/progress\<close> (token, title,
  message, current, total, unit), \<open>notifications/progress/complete\<close> (token, message) and
  \<open>notifications/progress/error\<close> (token, error).
\<close>

datatype notification =
    Progress string string string int "int option" string
  | ProgressComplete string string
  | ProgressError string string

definition is_terminal :: "notification \<Rightarrow> bool" where
  "is_terminal n = (case n of Progress tok ti m c t u \<Rightarrow> False | ProgressComplete tok m \<Rightarrow> True
     | ProgressError tok m \<Rightarrow> True)"

text \<open>
  What the process shares between calls: the three module-level limiters, every notification
  handed to \<open>server.notification\<close> with whether the send succeeded, the lines written by
  \<open>console.error\<close>, and the names of the tools whose handler was invoked.
\<close>

record server_state =
  st_system :: RateLimiter
  st_network :: RateLimiter
  st_geo :: RateLimiter
  sent :: "(notification \<times> bool) list"
  console :: "(string \<times> thrown) list"
  invoked :: "string list"

text \<open>
  \<open>server.notification\<close>: the transport decides, per send (its position among all sends, and
  the notification), whether the send succeeds (\<open>None\<close>) or rejects with an error.
\<close>

type_synonym transport = "nat \<Rightarrow> notification \<Rightarrow> thrown option"

definition server_notification :: "transport \<Rightarrow> notification \<Rightarrow> server_state
    \<Rightarrow> (thrown + unit) \<times> server_state" where
  "server_notification deliver n st =
     (case deliver (length (sent st)) n of
        None \<Rightarrow> (Inr (), st\<lparr>sent := sent st @ [(n, True)]\<rparr>)
      | Some e \<Rightarrow> (Inl e, st\<lparr>sent := sent st @ [(n, False)]\<rparr>))"

record ProgressOptions =
  po_title :: string
  po_total :: "int option"
  po_unit :: "string option"

record ProgressReporter =
  pr_current :: int
  pr_token :: string
  pr_total :: "int option"
  pr_title :: string
  pr_unit :: string

text \<open>The constructor; \<open>options.unit || 'items'\<close> also replaces the empty string.\<close>

definition new_ProgressReporter :: "string \<Rightarrow> ProgressOptions \<Rightarrow> ProgressReporter" where
  "new_ProgressReporter tok options =
     \<lparr>pr_current = 0, pr_token = tok, pr_total = po_total options, pr_title = po_title options,
      pr_unit = (case po_unit options of None \<Rightarrow> ''items''
                 | Some u \<Rightarrow> if u = [] then ''items'' else u)\<rparr>"

text \<open>
  \<open>getDefaultMessage\<close>; \<open>if (this.total)\<close> is false for an absent total and for 0, and
  \<open>Math.round\<close> rounds a half upwards.
\<close>

definition getDefaultMessage :: "ProgressReporter \<Rightarrow> string" where
  "getDefaultMessage p =
     (case pr_total p of
        None \<Rightarrow> ''Processed '' @ show_int (pr_current p) @ '' '' @ pr_unit p
      | Some t \<Rightarrow>
          if t = 0 then ''Processed '' @ show_int (pr_current p) @ '' '' @ pr_unit p
          else ''Processing '' @ show_int (pr_current p) @ ''/'' @ show_int t @ '' '' @ pr_unit p @
               '' ('' @ show_int ((200 * pr_current p + t) div (2 * t)) @ ''%)'')"

text \<open>The parameters of the notification that \<open>report\<close> and \<open>complete\<close> build.\<close>

definition progress_params :: "string option \<Rightarrow> ProgressReporter \<Rightarrow> notification" where
  "progress_params message p =
     Progress (pr_token p) (pr_title p)
       (case message of None \<Rightarrow> getDefaultMessage p
        | Some m \<Rightarrow> if m = [] then getDefaultMessage p else m)
       (pr_current p) (pr_total p) (pr_unit p)"

definition complete_params :: "string option \<Rightarrow> ProgressReporter \<Rightarrow> notification" where
  "complete_params message p =
     ProgressComplete (pr_token p)
       (case message of
          None \<Rightarrow> ''Completed processing '' @ show_int (pr_current p) @ '' '' @ pr_unit p
        | Some m \<Rightarrow> if m = []
            then ''Completed processing '' @ show_int (pr_current p) @ '' '' @ pr_unit p
            else m)"

text \<open>
  \<open>report\<close>, \<open>complete\<close> and \<open>error\<close>: each returns what the method's promise settles to
  (\<open>Inr ()\<close> when it resolves, \<open>Inl\<close> when it rejects), the reporter and the state.
\<close>

definition report :: "transport \<Rightarrow> int option \<Rightarrow> string option \<Rightarrow> ProgressReporter \<Rightarrow> server_state
    \<Rightarrow> (thrown + unit) \<times> ProgressReporter \<times> server_state" where
  "report deliver increment message p st =
     (let p1 = p\<lparr>pr_current := pr_current p + (case increment of None \<Rightarrow> 1 | Some i \<Rightarrow> i)\<rparr>
      in case server_notification deliver (progress_params message p1) st of
           (Inr u, st1) \<Rightarrow> (Inr (), p1, st1)
         | (Inl e, st1) \<Rightarrow>
             (Inr (), p1, st1\<lparr>console := console st1 @ [(''Failed to send progress notification:'', e)]\<rparr>))"

definition complete :: "transport \<Rightarrow> string option \<Rightarrow> ProgressReporter \<Rightarrow> server_state
    \<Rightarrow> (thrown + unit) \<times> server_state" where
  "complete deliver message p st =
     (case server_notification deliver (complete_params message p) st of
        (Inr u, st1) \<Rightarrow> (Inr (), st1)
      | (Inl e, st1) \<Rightarrow>
          (Inr (), st1\<lparr>console := console st1 @ [(''Failed to send completion notification:'', e)]\<rparr>))"

definition progress_error :: "transport \<Rightarrow> string \<Rightarrow> ProgressReporter \<Rightarrow> server_state
    \<Rightarrow> (thrown + unit) \<times> server_state" where
  "progress_error deliver error_message p st =
     (case server_notification deliver (ProgressError (pr_token p) error_message) st of
        (Inr u, st1) \<Rightarrow> (Inr (), st1)
      | (Inl e, st1) \<Rightarrow>
          (Inr (), st1\<lparr>console := console st1 @ [(''Failed to send error notification:'', e)]\<rparr>))"

text \<open>
  \<open>withProgress\<close>. The token is the string built from \<open>Date.now()\<close> and \<open>Math.random()\<close>. A
  rejected \<open>progress.error\<close> would replace the operation's error; the result keeps that
  branch.
\<close>

definition withProgress :: "transport \<Rightarrow> string \<Rightarrow> ProgressOptions
    \<Rightarrow> (ProgressReporter \<Rightarrow> server_state \<Rightarrow> (thrown + 'a) \<times> ProgressReporter \<times> server_state)
    \<Rightarrow> server_state \<Rightarrow> (thrown + 'a) \<times> server_state" where
  "withProgress deliver tok options operation st =
     (let progress = new_ProgressReporter tok options in
      case operation progress st of
        (Inr v, p1, st1) \<Rightarrow> (Inr v, st1)
      | (Inl error, p1, st1) \<Rightarrow>
          (case progress_error deliver (thrown_message error) p1 st1 of
             (Inr u, st2) \<Rightarrow> (Inl error, st2)
           | (Inl e2, st2) \<Rightarrow> (Inl e2, st2)))"

section \<open>The dispatcher (index.ts)\<close>

text \<open>The keys of \<open>allTools\<close>, in the order of the spread of the six tool objects.\<close>

definition registered :: "string list" where
  "registered =
     [''getCurrentTime'', ''getSystemInfo'', ''getLoadAverage'',
      ''getNetworkInterfaces'', ''checkConnectivity'', ''getPublicIP'', ''pingHost'', ''traceroute'',
      ''geolocate'', ''clearGeoCache'',
      ''generateUUID'', ''generateQRCode'',
      ''convertTimezone'', ''listTimezones'',
      ''hashData'', ''compareHashes'']"

text \<open>
  \<open>allTools\<close> is an object literal, so \<open>allTools[name]\<close> also finds the properties it inherits
  from \<open>Object.prototype\<close>. Each of them is a function or an object, hence truthy, and has no
  \<open>handler\<close> property.
\<close>

definition object_prototype_properties :: "string list" where
  "object_prototype_properties =
     [''constructor'', ''__defineGetter__'', ''__defineSetter__'', ''hasOwnProperty'',
      ''__lookupGetter__'', ''__lookupSetter__'', ''isPrototypeOf'', ''propertyIsEnumerable'',
      ''toString'', ''valueOf'', ''__proto__'', ''toLocaleString'']"

datatype lookup = OwnTool string | Inherited | Undefined

definition allTools :: "string \<Rightarrow> lookup" where
  "allTools name =
     (if name \<in> set registered then OwnTool name
      else if name \<in> set object_prototype_properties then Inherited
      else Undefined)"

datatype limiter_id = SystemLimiter | NetworkLimiter | GeoLimiter

text \<open>The \<open>if\<close> chain that picks the limiter from the tool name.\<close>

definition selectRateLimiter :: "string \<Rightarrow> limiter_id" where
  "selectRateLimiter name =
     (if startsWith name ''get_system'' then SystemLimiter
      else if startsWith name ''get_network'' \<or> name = ''ping_host'' \<or> name = ''traceroute''
        then NetworkLimiter
      else if name = ''geolocate'' then GeoLimiter
      else SystemLimiter)"

definition get_limiter :: "limiter_id \<Rightarrow> server_state \<Rightarrow> RateLimiter" where
  "get_limiter l st = (case l of SystemLimiter \<Rightarrow> st_system st | NetworkLimiter \<Rightarrow> st_network st
     | GeoLimiter \<Rightarrow> st_geo st)"

definition set_limiter :: "limiter_id \<Rightarrow> RateLimiter \<Rightarrow> server_state \<Rightarrow> server_state" where
  "set_limiter l rl st = (case l of SystemLimiter \<Rightarrow> st\<lparr>st_system := rl\<rparr>
     | NetworkLimiter \<Rightarrow> st\<lparr>st_network := rl\<rparr> | GeoLimiter \<Rightarrow> st\<lparr>st_geo := rl\<rparr>)"

text \<open>A handler's response: its content and whether \<open>isError\<close> is truthy.\<close>

record tool_response =
  tr_content :: "content_item list"
  tr_isError :: bool

text \<open>What the request handler returns: the content and whether \<open>_meta\<close> is \<open>{isError: true}\<close>.\<close>

record ServerResult =
  sr_content :: "content_item list"
  sr_meta_isError :: bool

text \<open>
  What one run of a tool's handler does, as far as the dispatcher can see: the calls of
  \<open>progress.report\<close> it makes (increment and message, each optional) and how it ends, by
  returning a response or by throwing. The handlers of this repository make no report.
\<close>

record handler_run =
  hr_reports :: "(int option \<times> string option) list"
  hr_outcome :: "thrown + tool_response"

text \<open>What surrounds one call: the clock reading of \<open>checkLimit\<close>, the token, the transport and
  the run of the handler for the call's name and arguments.\<close>

record call_env =
  ce_now :: int
  ce_token :: string
  ce_deliver :: transport
  ce_handler :: handler_run

fun run_reports :: "transport \<Rightarrow> (int option \<times> string option) list \<Rightarrow> ProgressReporter
    \<Rightarrow> server_state \<Rightarrow> ProgressReporter \<times> server_state" where
  "run_reports deliver [] p st = (p, st)"
| "run_reports deliver ((i, m) # rs) p st =
     (case report deliver i m p st of (r, p1, st1) \<Rightarrow> run_reports deliver rs p1 st1)"

text \<open>
  \<open>tool.handler(request.params.arguments, progress)\<close>: for a value found on the prototype,
  \<open>tool.handler\<close> is \<open>undefined\<close> and the call throws a \<open>TypeError\<close> (the message is V8's).
\<close>

definition invoke_handler :: "lookup \<Rightarrow> call_env \<Rightarrow> ProgressReporter \<Rightarrow> server_state
    \<Rightarrow> (thrown + tool_response) \<times> ProgressReporter \<times> server_state" where
  "invoke_handler tool env p st =
     (case tool of
        OwnTool n \<Rightarrow>
          (case run_reports (ce_deliver env) (hr_reports (ce_handler env)) p
                  (st\<lparr>invoked := invoked st @ [n]\<rparr>) of
             (p1, st1) \<Rightarrow> (hr_outcome (ce_handler env), p1, st1))
      | Inherited \<Rightarrow> (Inl (Error ''tool.handler is not a function''), p, st)
      | Undefined \<Rightarrow> (Inl (Error ''tool.handler is not a function''), p, st))"

text \<open>The operation handed to \<open>withProgress\<close>: the handler, then \<open>progress.complete()\<close>.\<close>

definition tool_operation :: "lookup \<Rightarrow> call_env \<Rightarrow> ProgressReporter \<Rightarrow> server_state
    \<Rightarrow> (thrown + tool_response) \<times> ProgressReporter \<times> server_state" where
  "tool_operation tool env p st =
     (case invoke_handler tool env p st of
        (Inl e, p1, st1) \<Rightarrow> (Inl e, p1, st1)
      | (Inr toolResult, p1, st1) \<Rightarrow>
          (case complete (ce_deliver env) None p1 st1 of
             (Inr u, st2) \<Rightarrow> (Inr toolResult, p1, st2)
           | (Inl e, st2) \<Rightarrow> (Inl e, p1, st2)))"

text \<open>The body of the \<open>try\<close> block of the \<open>CallToolRequestSchema\<close> handler.\<close>

definition callTool_try :: "call_env \<Rightarrow> server_state \<Rightarrow> string
    \<Rightarrow> (thrown + ServerResult) \<times> server_state" where
  "callTool_try env st name =
     (case allTools name of
        Undefined \<Rightarrow> (Inl (McpToolError MethodNotFound (''Tool not found: '' @ name) None), st)
      | tool \<Rightarrow>
          (let l = selectRateLimiter name in
           case checkLimit (get_limiter l st) (ce_now env) name of
             Inl e \<Rightarrow> (Inl e, st)
           | Inr rl1 \<Rightarrow>
               (case withProgress (ce_deliver env) (ce_token env)
                       \<lparr>po_title = ''Executing '' @ name, po_total = None, po_unit = Some ''operations''\<rparr>
                       (tool_operation tool env) (set_limiter l rl1 st) of
                  (Inl e, st1) \<Rightarrow> (Inl e, st1)
                | (Inr result, st1) \<Rightarrow>
                    (Inr \<lparr>sr_content = tr_content result, sr_meta_isError = tr_isError result\<rparr>, st1))))"

text \<open>The handler with its \<open>catch\<close>: a \<open>McpToolError\<close> is thrown again, any other error becomes
  a result.\<close>

definition callTool :: "call_env \<Rightarrow> server_state \<Rightarrow> string
    \<Rightarrow> (thrown + ServerResult) \<times> server_state" where
  "callTool env st name =
     (case callTool_try env st name of
        (Inr r, st1) \<Rightarrow> (Inr r, st1)
      | (Inl error, st1) \<Rightarrow>
          (case error of
             McpToolError c m d \<Rightarrow> (Inl error, st1)
           | _ \<Rightarrow> (Inr \<lparr>sr_content = handleToolError error, sr_meta_isError = True\<rparr>, st1)))"

text \<open>The state of a freshly started process.\<close>

definition initial_state :: server_state where
  "initial_state = \<lparr>st_system = systemRateLimiter, st_network = networkRateLimiter,
     st_geo = geoRateLimiter, sent = [], console = [], invoked = []\<rparr>"

section \<open>The timezone listing tool (tools/datetime.ts)\<close>

text \<open>\<open>Array.from(new Set(xs))\<close>: the first occurrence of each element, in order.\<close>

definition uniq :: "string list \<Rightarrow> string list" where
  "uniq xs = rev (remdups (rev xs))"

text \<open>
  \<open>listTimezones\<close>: the argument is what \<open>Intl.supportedValuesOf('timeZone')\<close> gives (or throws)
  and the \<open>region\<close> argument; the result is the list the handler serialises with
  \<open>JSON.stringify\<close> into its one text item.
\<close>

definition listTimezones :: "thrown + string list \<Rightarrow> string option \<Rightarrow> thrown + string list" where
  "listTimezones supported region =
     (case supported of
        Inl e \<Rightarrow> Inl (Error (''Failed to list timezones: '' @ thrown_message e))
      | Inr vals \<Rightarrow>
          (let zones = uniq vals;
               filteredZones = (case region of
                   None \<Rightarrow> zones
                 | Some r \<Rightarrow> if r = [] then zones else filter (\<lambda>zone. startsWith zone r) zones)
           in Inr zones))"

text \<open>The list the handler would return if it used \<open>filteredZones\<close>.\<close>

definition filteredZones_of :: "string list \<Rightarrow> string option \<Rightarrow> string list" where
  "filteredZones_of vals region =
     (case region of
        None \<Rightarrow> uniq vals
      | Some r \<Rightarrow> if r = [] then uniq vals else filter (\<lambda>zone. startsWith zone r) (uniq vals))"

section \<open>Method calls on the sliding-window limiter\<close>

text \<open>\<open>cleanup\<close>: every key keeps its valid timestamps, a key with none is deleted.\<close>

definition cleanup :: "RateLimiter \<Rightarrow> int \<Rightarrow> RateLimiter" where
  "cleanup rl now =
     rl\<lparr>requests := (\<lambda>key. case requests rl key of
                          None \<Rightarrow> None
                        | Some ts \<Rightarrow>
                            (let valid = filter (\<lambda>time. now - time < windowMs rl) ts
                             in if valid = [] then None else Some valid))\<rparr>"

text \<open>
  One call of a public method of the limiter, with what it returns or throws and the limiter
  after the call; and a list of calls made at one instant.
\<close>

datatype rl_method = CheckLimit string | GetRemainingRequests string | GetTimeToReset string | Cleanup

datatype rl_result = Threw thrown | ReturnedVoid | Returned int

definition rl_call :: "RateLimiter \<Rightarrow> int \<Rightarrow> rl_method \<Rightarrow> rl_result \<times> RateLimiter" where
  "rl_call rl now m =
     (case m of
        CheckLimit key \<Rightarrow>
          (case checkLimit rl now key of Inl e \<Rightarrow> (Threw e, rl) | Inr rl1 \<Rightarrow> (ReturnedVoid, rl1))
      | GetRemainingRequests key \<Rightarrow> (Returned (getRemainingRequests rl now key), rl)
      | GetTimeToReset key \<Rightarrow> (Returned (getTimeToReset rl now key), rl)
      | Cleanup \<Rightarrow> (ReturnedVoid, cleanup rl now))"

fun rl_calls :: "RateLimiter \<Rightarrow> int \<Rightarrow> rl_method list \<Rightarrow> rl_result list \<times> RateLimiter" where
  "rl_calls rl now [] = ([], rl)"
| "rl_calls rl now (m # ms) =
     (case rl_call rl now m of
        (r, rl1) \<Rightarrow> (case rl_calls rl1 now ms of (rs, rl2) \<Rightarrow> (r # rs, rl2)))"

definition is_introspection :: "rl_method \<Rightarrow> bool" where
  "is_introspection m = (case m of CheckLimit key \<Rightarrow> False | GetRemainingRequests key \<Rightarrow> True
     | GetTimeToReset key \<Rightarrow> True | Cleanup \<Rightarrow> False)"

text \<open>The limiter of tools/geo.ts after three counted requests, and the module state around it.\<close>

definition geo_limiter_used :: FixedWindowLimiter where
  "geo_limiter_used =
     incrementRequests (incrementRequests (incrementRequests (new_FixedWindowLimiter 45 60000 0)))"

text \<open>
  The module state of tools/geo.ts when the module was loaded at the given reading, a clock
  that reads the same instant throughout one handler call, and an answer of the service with
  the given query and status.
\<close>

definition geo_initial :: "int \<Rightarrow> geo_state" where
  "geo_initial loaded = \<lparr>geoCache = new_Cache (Some (5 * 60 * 1000)),
     rateLimiter = new_FixedWindowLimiter 45 60000 loaded, fetched = []\<rparr>"

definition clock_at :: "int \<Rightarrow> geo_clock" where
  "clock_at t = \<lparr>t_get = t, t_can = t, t_reset = t, t_set = t\<rparr>"

definition lookup_answer :: "string \<Rightarrow> string \<Rightarrow> GeoLocation" where
  "lookup_answer q s = \<lparr>gl_query = q, gl_status = s, gl_country = [], gl_countryCode = [],
     gl_region = [], gl_regionName = [], gl_city = [], gl_zip = [], gl_lat = 0, gl_lon = 0,
     gl_timezone = [], gl_offset = 0, gl_isp = [], gl_org = [], gl_as = []\<rparr>"

text \<open>
  Two states that differ at most in which sends succeeded and in what was logged: the same
  limiters, the same handlers invoked, the same notifications handed to the transport.
\<close>

definition same_but_delivery :: "server_state \<Rightarrow> server_state \<Rightarrow> bool" where
  "same_but_delivery a b \<longleftrightarrow>
     st_system a = st_system b \<and> st_network a = st_network b \<and> st_geo a = st_geo b \<and>
     invoked a = invoked b \<and> map fst (sent a) = map fst (sent b)"

text \<open>A call at the given reading with a transport that delivers everything.\<close>

definition example_env :: "int \<Rightarrow> handler_run \<Rightarrow> call_env" where
  "example_env now run =
     \<lparr>ce_now = now, ce_token = ''progress-1'', ce_deliver = (\<lambda>i n. None), ce_handler = run\<rparr>"

text \<open>A handler that returns one text item, and one that throws an \<open>Error\<close>.\<close>

definition returning :: "string \<Rightarrow> handler_run" where
  "returning t = \<lparr>hr_reports = [],
     hr_outcome = Inr \<lparr>tr_content = [\<lparr>ctype = ''text'', ctext = t\<rparr>], tr_isError = False\<rparr>\<rparr>"

definition throwing :: "string \<Rightarrow> handler_run" where
  "throwing m = \<lparr>hr_reports = [], hr_outcome = Inl (Error m)\<rparr>"

text \<open>What one send leaves behind: the notification with its flag, and a log line on failure.\<close>

definition after_send :: "transport \<Rightarrow> notification \<Rightarrow> string \<Rightarrow> server_state \<Rightarrow> server_state" where
  "after_send d n label st =
     st\<lparr>sent := sent st @ [(n, d (length (sent st)) n = None)],
        console := console st @ (case d (length (sent st)) n of None \<Rightarrow> [] | Some e \<Rightarrow> [(label, e)])\<rparr>"

text \<open>The \<open>catch\<close> of the request handler, applied to a thrown value.\<close>

definition caught :: "thrown \<Rightarrow> thrown + ServerResult" where
  "caught e = (case e of McpToolError c m d \<Rightarrow> Inl e
     | _ \<Rightarrow> Inr \<lparr>sr_content = handleToolError e, sr_meta_isError = True\<rparr>)"

text \<open>The state after 45 \<open>geolocate\<close> calls were admitted at reading 0.\<close>

definition geo_exhausted :: server_state where
  "geo_exhausted = initial_state\<lparr>st_geo :=
     geoRateLimiter\<lparr>requests := (requests geoRateLimiter)(''geolocate'' \<mapsto> replicate 45 0)\<rparr>\<rparr>"

section \<open>The sliding window admits at most \<open>maxRequests\<close> calls\<close>

lemma admitted_Nil: "admitted rl [] key = []"
  by (simp add: admitted_def)

lemma admitted_Cons:
  "admitted rl ((now, k) # cs) key =
     (case checkLimit rl now k of
        Inl e \<Rightarrow> admitted rl cs key
      | Inr rl1 \<Rightarrow> (if k = key then [now] else []) @ admitted rl1 cs key)"
  by (simp add: admitted_def split: sum.splits prod.splits)

lemma checkLimit_Inr_fields:
  assumes "checkLimit rl now k = Inr rl1"
  shows "maxRequests rl1 = maxRequests rl" "windowMs rl1 = windowMs rl" "errorMessage rl1 = errorMessage rl"
    "requests rl1 = (requests rl)(k \<mapsto> validTimestamps rl now k @ [now])"
    "int (length (validTimestamps rl now k)) < maxRequests rl"
  using assms by (auto simp: checkLimit_def Let_def split: if_splits)

lemma tracks_other:
  assumes "tracks rl key hist lo" "checkLimit rl now k = Inr rl1" "k \<noteq> key" "lo \<le> now"
  shows "tracks rl1 key hist now"
  using assms checkLimit_Inr_fields[OF assms(2)]
  by (fastforce simp: tracks_def validTimestamps_def timestamps_of_def)

lemma tracks_same:
  assumes "tracks rl key hist lo" "checkLimit rl now key = Inr rl1" "lo \<le> now"
  shows "tracks rl1 key (hist @ [now]) now"
proof -
  note f = checkLimit_Inr_fields[OF assms(2)]
  have v: "validTimestamps rl now key = filter (\<lambda>t. now - t < windowMs rl) hist"
    using assms(1,3) by (simp add: tracks_def)
  have "\<forall>t \<in> set (hist @ [now]). t \<le> now"
    using assms(1,3) by (auto simp: tracks_def)
  moreover have "validTimestamps rl1 n key = filter (\<lambda>t. n - t < windowMs rl1) (hist @ [now])"
    if "now \<le> n" for n
  proof -
    have "filter (\<lambda>t. n - t < windowMs rl) (filter (\<lambda>t. now - t < windowMs rl) hist)
          = filter (\<lambda>t. n - t < windowMs rl) hist"
      using that by (auto simp: filter_filter intro!: filter_cong)
    moreover have "timestamps_of rl1 key = filter (\<lambda>t. now - t < windowMs rl) hist @ [now]"
      by (simp add: timestamps_of_def f(4) v)
    ultimately show ?thesis
      by (simp add: validTimestamps_def f(2) del: filter_filter)
  qed
  ultimately show ?thesis by (simp add: tracks_def)
qed

lemma window_bounded_snoc:
  assumes "window_bounded w m hist" "\<forall>t \<in> set hist. t \<le> now"
    "int (length (filter (\<lambda>t. now - t < w) hist)) < m"
  shows "window_bounded w m (hist @ [now])"
  unfolding window_bounded_def
proof
  fix T
  show "int (length (filter (\<lambda>t. T - w < t \<and> t \<le> T) (hist @ [now]))) \<le> m"
  proof (cases "T - w < now \<and> now \<le> T")
    case False
    then show ?thesis using assms(1) by (auto simp: window_bounded_def)
  next
    case True
    have "length (filter (\<lambda>t. T - w < t \<and> t \<le> T) hist) \<le> length (filter (\<lambda>t. now - t < w) hist)"
    proof -
      have "filter (\<lambda>t. T - w < t \<and> t \<le> T) hist
            = filter (\<lambda>t. T - w < t \<and> t \<le> T) (filter (\<lambda>t. now - t < w) hist)"
        using True by (auto intro!: filter_cong)
      then show ?thesis by (metis length_filter_le)
    qed
    then show ?thesis using True assms(3) by simp
  qed
qed

lemma checkLimits_tracks:
  assumes "tracks rl key hist lo" "sorted (map fst cs)" "\<forall>c \<in> set cs. lo \<le> fst c"
    "window_bounded (windowMs rl) (maxRequests rl) hist"
  shows "tracks (snd (checkLimits rl cs)) key (hist @ admitted rl cs key) (last (lo # map fst cs))
     \<and> window_bounded (windowMs rl) (maxRequests rl) (hist @ admitted rl cs key)
     \<and> maxRequests (snd (checkLimits rl cs)) = maxRequests rl
     \<and> windowMs (snd (checkLimits rl cs)) = windowMs rl
     \<and> errorMessage (snd (checkLimits rl cs)) = errorMessage rl"
  using assms
proof (induction cs arbitrary: rl hist lo)
  case Nil
  then show ?case by (auto simp: admitted_Nil)
next
  case (Cons c cs)
  obtain now k where c: "c = (now, k)" by (cases c)
  have lo: "lo \<le> now" using Cons.prems(3) c by simp
  have srt: "sorted (map fst cs)" and ge: "\<forall>c \<in> set cs. now \<le> fst c"
    using Cons.prems(2) c by auto
  show ?case
  proof (cases "checkLimit rl now k")
    case (Inl e)
    have tr: "tracks rl key hist now"
      using Cons.prems(1) lo by (auto simp: tracks_def)
    from Cons.IH[OF tr srt ge Cons.prems(4)] show ?thesis using Inl c
      by (auto simp: admitted_Cons split: prod.splits)
  next
    case (Inr rl1)
    note f = checkLimit_Inr_fields[OF Inr]
    let ?h = "hist @ (if k = key then [now] else [])"
    have tr: "tracks rl1 key ?h now"
      using tracks_same[OF Cons.prems(1) _ lo] tracks_other[OF Cons.prems(1) Inr _ lo] Inr
      by auto
    have wb: "window_bounded (windowMs rl1) (maxRequests rl1) ?h"
    proof (cases "k = key")
      case True
      have "validTimestamps rl now key = filter (\<lambda>t. now - t < windowMs rl) hist"
        using Cons.prems(1) lo by (simp add: tracks_def)
      then have "int (length (filter (\<lambda>t. now - t < windowMs rl) hist)) < maxRequests rl"
        using f(5) True by simp
      moreover have "\<forall>t \<in> set hist. t \<le> now"
        using Cons.prems(1) lo by (auto simp: tracks_def)
      ultimately show ?thesis
        using window_bounded_snoc[OF Cons.prems(4)] True f by simp
    next
      case False
      then show ?thesis using Cons.prems(4) f by simp
    qed
    from Cons.IH[OF tr srt ge wb] show ?thesis using Inr c f(1,2,3)
      by (auto simp: admitted_Cons split: prod.splits)
  qed
qed

lemma ceil_div1000_pos: "0 < x \<Longrightarrow> 0 < ceil_div1000 x"
  unfolding ceil_div1000_def by linarith

lemma ceil_div1000_mono: "x \<le> y \<Longrightarrow> ceil_div1000 x \<le> ceil_div1000 y"
  unfolding ceil_div1000_def by (simp add: zdiv_mono1)

lemma ceil_div1000_dvd: "1000 dvd w \<Longrightarrow> ceil_div1000 w * 1000 = w"
  unfolding ceil_div1000_def by (auto simp: dvd_def)

lemma new_RateLimiter_fields:
  "requests (new_RateLimiter config) = Map.empty"
  "maxRequests (new_RateLimiter config) = cfg_maxRequests config"
  "windowMs (new_RateLimiter config) = cfg_windowMs config"
  by (simp_all add: new_RateLimiter_def)

lemma sorted_hd_least: "sorted (map fst (c # cs)) \<Longrightarrow> \<forall>d \<in> set (c # cs). fst c \<le> fst d"
  by auto

lemma sorted_last_greatest: "sorted xs \<Longrightarrow> x \<in> set xs \<Longrightarrow> x \<le> last (lo # xs)"
  by (induction xs) (auto split: if_splits)

text \<open>
  Claim C1, as the code has it. On a fresh limiter with \<open>maxRequests \<ge> 1\<close>, for any sequence of
  \<open>checkLimit\<close> calls (any keys) whose clock readings do not decrease: for every key and every
  instant \<open>T\<close>, at most \<open>maxRequests\<close> admitted calls of that key have their reading in the
  trailing window \<open>(T - windowMs, T]\<close>; and when \<open>maxRequests\<close> admitted readings lie in the
  window of a later call, that call throws the limiter's error with a \<open>resetInSeconds\<close> that
  is strictly positive and at most \<open>ceil (windowMs / 1000)\<close>, which is \<open>windowMs / 1000\<close> when
  \<open>windowMs\<close> is a whole number of seconds.
\<close>

theorem checkLimit_sliding_window:
  assumes fresh: "rl = new_RateLimiter config"
    and pos: "1 \<le> cfg_maxRequests config"
    and mono: "sorted (map fst cs)"
  shows "int (length (filter (\<lambda>t. T - windowMs rl < t \<and> t \<le> T) (admitted rl cs key))) \<le> maxRequests rl
    \<and> ((\<forall>c \<in> set cs. fst c \<le> now) \<and>
        maxRequests rl \<le> int (length (filter (\<lambda>t. now - t < windowMs rl) (admitted rl cs key)))
       \<longrightarrow> (\<exists>r. checkLimit (snd (checkLimits rl cs)) now key
                  = Inl (McpToolError InternalError (errorMessage rl) (Some (ResetInSeconds (Num r))))
              \<and> 0 < r \<and> r \<le> ceil_div1000 (windowMs rl)
              \<and> (1000 dvd windowMs rl \<longrightarrow> r * 1000 \<le> windowMs rl)))"
proof -
  define lo where "lo = (case cs of [] \<Rightarrow> now | c # _ \<Rightarrow> fst c)"
  have t0: "tracks rl key [] lo"
    by (simp add: tracks_def validTimestamps_def timestamps_of_def fresh new_RateLimiter_fields)
  have ge: "\<forall>c \<in> set cs. lo \<le> fst c"
    using mono by (cases cs) (auto simp: lo_def)
  have wb0: "window_bounded (windowMs rl) (maxRequests rl) []"
    using pos by (simp add: window_bounded_def fresh new_RateLimiter_fields)
  let ?rl' = "snd (checkLimits rl cs)" and ?adm = "admitted rl cs key"
  from checkLimits_tracks[OF t0 mono ge wb0]
  have tr: "tracks ?rl' key ?adm (last (lo # map fst cs))"
    and wb: "window_bounded (windowMs rl) (maxRequests rl) ?adm"
    and same: "maxRequests ?rl' = maxRequests rl" "windowMs ?rl' = windowMs rl"
      "errorMessage ?rl' = errorMessage rl"
    by simp_all
  have first: "int (length (filter (\<lambda>t. T - windowMs rl < t \<and> t \<le> T) ?adm)) \<le> maxRequests rl"
    using wb by (simp add: window_bounded_def)
  have second: "\<exists>r. checkLimit ?rl' now key
                  = Inl (McpToolError InternalError (errorMessage rl) (Some (ResetInSeconds (Num r))))
              \<and> 0 < r \<and> r \<le> ceil_div1000 (windowMs rl)
              \<and> (1000 dvd windowMs rl \<longrightarrow> r * 1000 \<le> windowMs rl)"
    if late: "\<forall>c \<in> set cs. fst c \<le> now"
      and full: "maxRequests rl \<le> int (length (filter (\<lambda>t. now - t < windowMs rl) ?adm))"
  proof -
    have hi: "last (lo # map fst cs) \<le> now"
      using late by (cases cs rule: rev_cases) (auto simp: lo_def)
    then have v: "validTimestamps ?rl' now key = filter (\<lambda>t. now - t < windowMs rl) ?adm"
      using tr same by (simp add: tracks_def)
    have "1 \<le> maxRequests rl"
      using pos by (simp add: fresh new_RateLimiter_fields)
    with full obtain t0 rest where vt: "filter (\<lambda>t. now - t < windowMs rl) ?adm = t0 # rest"
      by (cases "filter (\<lambda>t. now - t < windowMs rl) ?adm") auto
    then have "t0 \<in> set (filter (\<lambda>t. now - t < windowMs rl) ?adm)"
      by simp
    then have in_w: "now - t0 < windowMs rl" and mem: "t0 \<in> set ?adm"
      by auto
    have "t0 \<le> last (lo # map fst cs)"
      using tr mem by (simp add: tracks_def)
    with hi have le: "t0 \<le> now" by simp
    let ?x = "t0 + windowMs rl - now"
    have x: "0 < ?x" "?x \<le> windowMs rl" using in_w le by simp_all
    have r1: "0 < ceil_div1000 ?x" by (rule ceil_div1000_pos[OF x(1)])
    have r2: "ceil_div1000 ?x \<le> ceil_div1000 (windowMs rl)" by (rule ceil_div1000_mono[OF x(2)])
    have r3: "1000 dvd windowMs rl \<longrightarrow> ceil_div1000 ?x * 1000 \<le> windowMs rl"
      using r2 ceil_div1000_dvd[of "windowMs rl"] by auto
    have "checkLimit ?rl' now key
           = Inl (McpToolError InternalError (errorMessage rl) (Some (ResetInSeconds (Num (ceil_div1000 ?x)))))"
      using full by (simp add: checkLimit_def v vt same)
    with r1 r2 r3 show ?thesis by blast
  qed
  from first second show ?thesis by blast
qed


lemma admitted_example:
  "admitted (new_RateLimiter \<lparr>cfg_maxRequests = 2, cfg_windowMs = 60000, cfg_errorMessage = None\<rparr>)
     [(0, ''a''), (5, ''b''), (10, ''a'')] ''a'' = [0, 10]"
  by (simp add: admitted_def checkLimit_def validTimestamps_def timestamps_of_def new_RateLimiter_def)

theorem checkLimit_sliding_window_witness:
  "int (length (filter (\<lambda>t. 10 - 60000 < t \<and> t \<le> 10)
      (admitted (new_RateLimiter \<lparr>cfg_maxRequests = 2, cfg_windowMs = 60000, cfg_errorMessage = None\<rparr>)
         [(0, ''a''), (5, ''b''), (10, ''a'')] ''a''))) \<le> 2
   \<and> (\<exists>r. checkLimit (snd (checkLimits
           (new_RateLimiter \<lparr>cfg_maxRequests = 2, cfg_windowMs = 60000, cfg_errorMessage = None\<rparr>)
           [(0, ''a''), (5, ''b''), (10, ''a'')])) 20 ''a''
         = Inl (McpToolError InternalError ''Rate limit exceeded. Please try again later.''
                 (Some (ResetInSeconds (Num r))))
       \<and> 0 < r \<and> r * 1000 \<le> 60000)"
proof -
  let ?cfg = "\<lparr>cfg_maxRequests = 2, cfg_windowMs = 60000, cfg_errorMessage = None\<rparr>"
  let ?cs = "[(0, ''a''), (5, ''b''), (10, ''a'')] :: (int \<times> string) list"
  have f: "windowMs (new_RateLimiter ?cfg) = 60000" "maxRequests (new_RateLimiter ?cfg) = 2"
    "errorMessage (new_RateLimiter ?cfg) = ''Rate limit exceeded. Please try again later.''"
    by (simp_all add: new_RateLimiter_def)
  have h2: "1 \<le> cfg_maxRequests ?cfg" by simp
  have h3: "sorted (map fst ?cs)" by simp
  have h4: "(\<forall>c \<in> set ?cs. fst c \<le> 20)
      \<and> maxRequests (new_RateLimiter ?cfg)
          \<le> int (length (filter (\<lambda>t. 20 - t < windowMs (new_RateLimiter ?cfg))
               (admitted (new_RateLimiter ?cfg) ?cs ''a'')))"
    by (simp add: admitted_example f)
  from checkLimit_sliding_window[OF refl h2 h3, of 10 "''a''" 20] h4
  show ?thesis
    unfolding f by auto
qed

text \<open>
  The bound \<open>windowMs / 1000\<close> of claim C1 fails for a window that is not a whole number of
  seconds: with \<open>maxRequests = 1\<close> and \<open>windowMs = 1500\<close>, a second call at the reading of the
  first is rejected with \<open>resetInSeconds = 2\<close>, more than 1.5.
\<close>

theorem checkLimit_reset_counterexample:
  "admitted (new_RateLimiter \<lparr>cfg_maxRequests = 1, cfg_windowMs = 1500, cfg_errorMessage = None\<rparr>)
      [(0, ''k'')] ''k'' = [0]
   \<and> checkLimit (snd (checkLimits
        (new_RateLimiter \<lparr>cfg_maxRequests = 1, cfg_windowMs = 1500, cfg_errorMessage = None\<rparr>)
        [(0, ''k'')])) 0 ''k''
     = Inl (McpToolError InternalError ''Rate limit exceeded. Please try again later.''
             (Some (ResetInSeconds (Num 2))))
   \<and> \<not> ((2::int) * 1000 \<le> 1500)"
  by (simp add: admitted_def checkLimit_def validTimestamps_def timestamps_of_def new_RateLimiter_def
      ceil_div1000_def)


section \<open>The TTL cache\<close>

text \<open>
  Claim C5. A \<open>get\<close> at reading \<open>r\<close> after a \<open>set\<close> at reading \<open>s\<close> returns the stored value as
  long as \<open>r - s \<le> ttl\<close>, in particular at once (\<open>r = s\<close>, for a time-to-live that is not
  negative); a value that \<open>get\<close> returns belongs to an entry whose age is at most \<open>ttl\<close> at
  the read; and for an entry whose age exceeds \<open>ttl\<close>, \<open>get\<close> returns \<open>null\<close> and deletes the
  entry, so that a later \<open>prune\<close> neither finds nor keeps it and a later \<open>get\<close> returns
  \<open>null\<close>.
\<close>

theorem cache_ttl:
  "(r - s \<le> ttl c \<longrightarrow> fst (cache_get (cache_set c s k v) r k) = Some v)
   \<and> (0 \<le> ttl c \<longrightarrow> fst (cache_get (cache_set c s k v) s k) = Some v)
   \<and> (fst (cache_get c now k) = Some v
        \<longrightarrow> (\<exists>entry. cache c k = Some entry \<and> data entry = v \<and> now - timestamp entry \<le> ttl c))
   \<and> (cache c k = Some e \<and> now - timestamp e > ttl c
        \<longrightarrow> fst (cache_get c now k) = None
          \<and> cache (snd (cache_get c now k)) k = None
          \<and> cache (cache_prune (snd (cache_get c now k)) later) k = None
          \<and> fst (cache_get (cache_prune (snd (cache_get c now k)) later) later' k) = None)"
  by (auto simp: cache_get_def cache_set_def cache_prune_def split: option.splits if_splits)

theorem cache_ttl_witness:
  "fst (cache_get (cache_set (new_Cache (Some 300000)) 1000 ''8.8.8.8'' (7::nat)) 2000 ''8.8.8.8'') = Some 7
   \<and> fst (cache_get (cache_set (new_Cache (Some 300000)) 1000 ''8.8.8.8'' (7::nat)) 1000 ''8.8.8.8'') = Some 7
   \<and> (\<exists>entry. cache (cache_set (new_Cache (Some 300000)) 1000 ''8.8.8.8'' (7::nat)) ''8.8.8.8'' = Some entry
         \<and> data entry = 7 \<and> 2000 - timestamp entry \<le> 300000)
   \<and> fst (cache_get (cache_set (new_Cache (Some 300000)) 1000 ''8.8.8.8'' (7::nat)) 301001 ''8.8.8.8'') = None
   \<and> cache (snd (cache_get (cache_set (new_Cache (Some 300000)) 1000 ''8.8.8.8'' (7::nat)) 301001 ''8.8.8.8'')) ''8.8.8.8'' = None
   \<and> cache (cache_prune (snd (cache_get (cache_set (new_Cache (Some 300000)) 1000 ''8.8.8.8'' (7::nat)) 301001 ''8.8.8.8'')) 301002) ''8.8.8.8'' = None"
proof -
  let ?empty = "new_Cache (Some 300000) :: nat Cache"
  let ?filled = "cache_set ?empty 1000 ''8.8.8.8'' (7::nat)"
  have t: "ttl ?empty = 300000" "ttl ?filled = 300000" by (simp_all add: new_Cache_def cache_set_def)
  have e: "cache ?filled ''8.8.8.8'' = Some \<lparr>data = 7, timestamp = 1000\<rparr>"
    by (simp add: cache_set_def)
  have g: "fst (cache_get ?filled 2000 ''8.8.8.8'') = Some 7"
    by (simp add: cache_get_def cache_set_def new_Cache_def)
  note th = cache_ttl[of 2000 1000 ?empty "''8.8.8.8''" 7 2000 "\<lparr>data = 7, timestamp = 1000\<rparr>" 301002 0]
  have a1: "fst (cache_get ?filled 2000 ''8.8.8.8'') = Some 7"
    using th[THEN conjunct1] by (simp add: t)
  have a2: "fst (cache_get ?filled 1000 ''8.8.8.8'') = Some 7"
    using th[THEN conjunct2, THEN conjunct1] by (simp add: t)
  have a3: "\<exists>entry. cache ?filled ''8.8.8.8'' = Some entry \<and> data entry = 7 \<and> 2000 - timestamp entry \<le> 300000"
    using cache_ttl[of 0 0 ?filled "''8.8.8.8''" 7 2000, THEN conjunct2, THEN conjunct2, THEN conjunct1] g
    by (simp add: t)
  have a4: "fst (cache_get ?filled 301001 ''8.8.8.8'') = None
      \<and> cache (snd (cache_get ?filled 301001 ''8.8.8.8'')) ''8.8.8.8'' = None
      \<and> cache (cache_prune (snd (cache_get ?filled 301001 ''8.8.8.8'')) 301002) ''8.8.8.8'' = None"
    using cache_ttl[of 0 0 ?filled "''8.8.8.8''" 7 301001 "\<lparr>data = 7, timestamp = 1000\<rparr>" 301002,
        THEN conjunct2, THEN conjunct2, THEN conjunct2] e
    by (simp add: t)
  from a1 a2 a3 a4 show ?thesis by blast
qed

section \<open>Introspection of the limiters\<close>

lemma rl_call_introspection: "is_introspection m \<Longrightarrow> snd (rl_call rl now m) = rl"
  by (cases m) (simp_all add: rl_call_def is_introspection_def)

lemma rl_calls_introspection: "list_all is_introspection ms \<Longrightarrow> snd (rl_calls rl now ms) = rl"
proof (induction ms)
  case Nil
  then show ?case by simp
next
  case (Cons m ms)
  then have "snd (rl_call rl now m) = rl" "snd (rl_calls rl now ms) = rl"
    by (simp_all add: rl_call_introspection)
  then show ?case
    by (simp split: prod.splits) (metis snd_conv)
qed

lemma checkLimit_timestamps:
  "checkLimit rl now k = Inr rl1 \<Longrightarrow> set (timestamps_of rl1 key) \<subseteq> insert now (set (timestamps_of rl key))"
  by (auto simp: checkLimit_def Let_def validTimestamps_def timestamps_of_def split: if_splits)

lemma checkLimit_keeps_config:
  "checkLimit rl now k = Inr rl1 \<Longrightarrow> maxRequests rl1 = maxRequests rl \<and> windowMs rl1 = windowMs rl"
  by (auto simp: checkLimit_def Let_def split: if_splits)

lemma checkLimits_timestamps:
  "set (timestamps_of (snd (checkLimits rl cs)) key) \<subseteq> set (timestamps_of rl key) \<union> fst ` set cs
   \<and> maxRequests (snd (checkLimits rl cs)) = maxRequests rl
   \<and> windowMs (snd (checkLimits rl cs)) = windowMs rl"
proof (induction cs arbitrary: rl)
  case Nil
  then show ?case by simp
next
  case (Cons c cs)
  obtain now k where c: "c = (now, k)" by (cases c)
  show ?case
  proof (cases "checkLimit rl now k")
    case (Inl e)
    then show ?thesis using Cons.IH[of rl] c by (auto split: prod.splits)
  next
    case (Inr rl1)
    then show ?thesis
      using Cons.IH[of rl1] c checkLimit_timestamps[OF Inr, of key] checkLimit_keeps_config[OF Inr]
      by (auto split: prod.splits)
  qed
qed

lemma remaining_after_window:
  assumes "0 \<le> cfg_maxRequests config" "\<forall>c \<in> set cs. fst c + cfg_windowMs config \<le> now"
  shows "getRemainingRequests (snd (checkLimits (new_RateLimiter config) cs)) now key = cfg_maxRequests config"
proof -
  let ?rl = "snd (checkLimits (new_RateLimiter config) cs)"
  have ts: "set (timestamps_of ?rl key) \<subseteq> fst ` set cs"
    and m: "maxRequests ?rl = cfg_maxRequests config" and w: "windowMs ?rl = cfg_windowMs config"
    using checkLimits_timestamps[of "new_RateLimiter config" cs key]
    by (simp_all add: new_RateLimiter_def timestamps_of_def)
  have "validTimestamps ?rl now key = []"
    unfolding validTimestamps_def filter_empty_conv w using ts assms(2) by fastforce
  then show ?thesis using assms(1) by (simp add: getRemainingRequests_def m)
qed

text \<open>
  Claim C7, as the code has it. For the sliding-window limiter (utils/rate-limiter.ts):
  any number of \<open>getRemainingRequests\<close> and \<open>getTimeToReset\<close> calls, in any order, leave the
  limiter as it was, so every later call of any method gives what it would have given; and
  once \<open>windowMs\<close> has elapsed since every recorded call, \<open>getRemainingRequests\<close> is
  \<open>maxRequests\<close> again. For the fixed-window limiter of utils/cache.ts:
  \<open>getRemainingRequests\<close> leaves the state as it was before the reset time, and from the reset
  time on it starts a new window (count 0, reset time \<open>now + windowMs\<close>) and returns
  \<open>maxRequests\<close>; it is idempotent at one instant and does not change what \<open>canMakeRequest\<close>
  returns or leaves behind.
\<close>

theorem introspection_read_only:
  "(list_all is_introspection ms \<longrightarrow>
      snd (rl_calls rl now ms) = rl \<and> rl_call (snd (rl_calls rl now ms)) later m = rl_call rl later m)
   \<and> (0 \<le> cfg_maxRequests config \<and> (\<forall>c \<in> set cs. fst c + cfg_windowMs config \<le> now) \<longrightarrow>
        getRemainingRequests (snd (checkLimits (new_RateLimiter config) cs)) now key
          = cfg_maxRequests config)
   \<and> (now < fw_resetTime l \<longrightarrow> snd (fw_getRemainingRequests l now) = l)
   \<and> (fw_resetTime l \<le> now \<longrightarrow>
        snd (fw_getRemainingRequests l now) = l\<lparr>fw_requests := 0, fw_resetTime := now + fw_windowMs l\<rparr>
        \<and> (0 \<le> fw_maxRequests l \<longrightarrow> fst (fw_getRemainingRequests l now) = fw_maxRequests l))
   \<and> fw_getRemainingRequests (snd (fw_getRemainingRequests l now)) now = fw_getRemainingRequests l now
   \<and> canMakeRequest (snd (fw_getRemainingRequests l now)) now = canMakeRequest l now"
proof -
  have a: "list_all is_introspection ms \<longrightarrow>
      snd (rl_calls rl now ms) = rl \<and> rl_call (snd (rl_calls rl now ms)) later m = rl_call rl later m"
    by (simp add: rl_calls_introspection)
  have b: "0 \<le> cfg_maxRequests config \<and> (\<forall>c \<in> set cs. fst c + cfg_windowMs config \<le> now) \<longrightarrow>
        getRemainingRequests (snd (checkLimits (new_RateLimiter config) cs)) now key
          = cfg_maxRequests config"
    using remaining_after_window by blast
  have c: "now < fw_resetTime l \<longrightarrow> snd (fw_getRemainingRequests l now) = l"
    by (simp add: fw_getRemainingRequests_def)
  have d: "fw_resetTime l \<le> now \<longrightarrow>
        snd (fw_getRemainingRequests l now) = l\<lparr>fw_requests := 0, fw_resetTime := now + fw_windowMs l\<rparr>
        \<and> (0 \<le> fw_maxRequests l \<longrightarrow> fst (fw_getRemainingRequests l now) = fw_maxRequests l)"
    by (simp add: fw_getRemainingRequests_def)
  have e: "fw_getRemainingRequests (snd (fw_getRemainingRequests l now)) now = fw_getRemainingRequests l now"
    by (simp add: fw_getRemainingRequests_def Let_def)
  have f: "canMakeRequest (snd (fw_getRemainingRequests l now)) now = canMakeRequest l now"
    by (simp add: fw_getRemainingRequests_def canMakeRequest_def Let_def)
  from a b c d e f show ?thesis by blast
qed

theorem introspection_read_only_witness:
  "snd (rl_calls geoRateLimiter 5 [GetRemainingRequests ''geolocate'', GetTimeToReset ''geolocate'',
        GetRemainingRequests ''geolocate'']) = geoRateLimiter
   \<and> rl_call (snd (rl_calls geoRateLimiter 5 [GetRemainingRequests ''geolocate'',
        GetTimeToReset ''geolocate'', GetRemainingRequests ''geolocate''])) 5 (CheckLimit ''geolocate'')
      = rl_call geoRateLimiter 5 (CheckLimit ''geolocate'')
   \<and> getRemainingRequests (snd (checkLimits
        (new_RateLimiter \<lparr>cfg_maxRequests = 45, cfg_windowMs = 60000, cfg_errorMessage = None\<rparr>)
        [(0, ''geolocate''), (10, ''geolocate'')])) 60010 ''geolocate'' = 45
   \<and> snd (fw_getRemainingRequests geo_limiter_used 59999) = geo_limiter_used
   \<and> fst (fw_getRemainingRequests geo_limiter_used 60000) = 45
   \<and> canMakeRequest (snd (fw_getRemainingRequests geo_limiter_used 60000)) 60000
      = canMakeRequest geo_limiter_used 60000"
proof -
  let ?ms = "[GetRemainingRequests ''geolocate'', GetTimeToReset ''geolocate'',
        GetRemainingRequests ''geolocate'']"
  let ?cfg = "\<lparr>cfg_maxRequests = 45, cfg_windowMs = 60000, cfg_errorMessage = None\<rparr>"
  let ?cs = "[(0, ''geolocate''), (10, ''geolocate'')] :: (int \<times> string) list"
  have h1: "list_all is_introspection ?ms" by (simp add: is_introspection_def)
  have h2: "0 \<le> cfg_maxRequests ?cfg \<and> (\<forall>c \<in> set ?cs. fst c + cfg_windowMs ?cfg \<le> 60010)"
    by simp
  have g: "fw_resetTime geo_limiter_used = 60000" "fw_maxRequests geo_limiter_used = 45"
    by (simp_all add: geo_limiter_used_def new_FixedWindowLimiter_def incrementRequests_def)
  note th1 = introspection_read_only[of ?ms geoRateLimiter 5 5 "CheckLimit ''geolocate''" ?cfg ?cs
      "''geolocate''" geo_limiter_used]
  note th2 = introspection_read_only[of ?ms geoRateLimiter 60010 5 "CheckLimit ''geolocate''" ?cfg ?cs
      "''geolocate''" geo_limiter_used]
  note th3 = introspection_read_only[of ?ms geoRateLimiter 59999 5 "CheckLimit ''geolocate''" ?cfg ?cs
      "''geolocate''" geo_limiter_used]
  note th4 = introspection_read_only[of ?ms geoRateLimiter 60000 5 "CheckLimit ''geolocate''" ?cfg ?cs
      "''geolocate''" geo_limiter_used]
  have a: "snd (rl_calls geoRateLimiter 5 ?ms) = geoRateLimiter
      \<and> rl_call (snd (rl_calls geoRateLimiter 5 ?ms)) 5 (CheckLimit ''geolocate'')
        = rl_call geoRateLimiter 5 (CheckLimit ''geolocate'')"
    using th1 h1 by blast
  have b: "getRemainingRequests (snd (checkLimits (new_RateLimiter ?cfg) ?cs)) 60010 ''geolocate'' = 45"
    using th2 h2 by simp
  have c: "snd (fw_getRemainingRequests geo_limiter_used 59999) = geo_limiter_used"
    using th3 g by simp
  have d: "fst (fw_getRemainingRequests geo_limiter_used 60000) = 45"
    using th4 g by simp
  have e: "canMakeRequest (snd (fw_getRemainingRequests geo_limiter_used 60000)) 60000
      = canMakeRequest geo_limiter_used 60000"
    using th4 by blast
  from a b c d e show ?thesis by blast
qed

text \<open>
  Claim C7 fails for the limiter of utils/cache.ts: at the reset time its
  \<open>getRemainingRequests\<close> changes the stored state, and \<open>getTimeToReset\<close> at the same instant
  gives 0 before that call and 60000 after it.
\<close>

theorem fixed_window_reset_counterexample:
  "snd (fw_getRemainingRequests geo_limiter_used 60000) \<noteq> geo_limiter_used
   \<and> fw_getTimeToReset geo_limiter_used 60000 = 0
   \<and> fw_getTimeToReset (snd (fw_getRemainingRequests geo_limiter_used 60000)) 60000 = 60000"
  by (simp add: geo_limiter_used_def new_FixedWindowLimiter_def incrementRequests_def
      fw_getRemainingRequests_def fw_getTimeToReset_def)


section \<open>The geolocation cache\<close>

lemma geolocate_api_cached:
  assumes "geolocate clk net st q = (Inr p, st1)" "p_source p = ''api''" "gl_status (p_data p) = ''success''"
  shows "cache (geoCache st1) q = Some \<lparr>data = p_data p, timestamp = t_set clk\<rparr>"
    and "ttl (geoCache st1) = ttl (geoCache st)"
  using assms
  by (auto simp: geolocate_def cache_get_def cache_set_def Let_def incrementRequests_def
      split: option.splits if_splits prod.splits sum.splits)

lemma geolocate_hit:
  assumes "cache (geoCache st) q = Some e" "t - timestamp e \<le> ttl (geoCache st)" "t_get clk = t"
  shows "geolocate clk net st q = (Inr \<lparr>p_data = data e, p_rateLimit = None, p_source = ''cache''\<rparr>, st)"
  using assms by (simp add: geolocate_def cache_get_def)

text \<open>
  Claim C8, as the code has it. When a \<open>geolocate\<close> call fetched an answer with status
  \<open>success\<close> (its source is \<open>api\<close>), a following call with the same query whose cache read
  happens at most \<open>ttl\<close> after the first call stored the answer returns that answer with
  source \<open>cache\<close> and leaves the module state, and so the log of fetches, as it was, whatever
  the network would answer.
\<close>

theorem geolocate_second_call_cached:
  assumes "geolocate clk1 net1 st q = (Inr p1, st1)"
    and "p_source p1 = ''api''"
    and "gl_status (p_data p1) = ''success''"
    and "t_get clk2 - t_set clk1 \<le> ttl (geoCache st)"
  shows "geolocate clk2 net2 st1 q
           = (Inr \<lparr>p_data = p_data p1, p_rateLimit = None, p_source = ''cache''\<rparr>, st1)
         \<and> fetched (snd (geolocate clk2 net2 st1 q)) = fetched st1"
proof -
  note c = geolocate_api_cached[OF assms(1,2,3)]
  have "geolocate clk2 net2 st1 q
           = (Inr \<lparr>p_data = data \<lparr>data = p_data p1, timestamp = t_set clk1\<rparr>, p_rateLimit = None,
                  p_source = ''cache''\<rparr>, st1)"
    by (rule geolocate_hit[OF c(1) _ refl]) (simp add: c(2) assms(4))
  then show ?thesis by simp
qed

lemma first_call_example:
  "geolocate (clock_at 1000) (FetchOk (lookup_answer ''8.8.8.8'' ''success'') (Some (Num 44)) (Some (Num 60)))
     (geo_initial 0) ''8.8.8.8''
   = (Inr \<lparr>p_data = lookup_answer ''8.8.8.8'' ''success'',
            p_rateLimit = Some \<lparr>ri_remaining = Num 44, ri_ttl = Num 60\<rparr>, p_source = ''api''\<rparr>,
      \<lparr>geoCache = cache_set (new_Cache (Some (5 * 60 * 1000))) 1000 ''8.8.8.8''
                    (lookup_answer ''8.8.8.8'' ''success''),
       rateLimiter = incrementRequests (new_FixedWindowLimiter 45 60000 0),
       fetched = [''8.8.8.8'']\<rparr>)"
  by (simp add: geolocate_def geo_initial_def clock_at_def cache_get_def new_Cache_def canMakeRequest_def
      new_FixedWindowLimiter_def fetchGeoData_def lookup_answer_def incrementRequests_def)

theorem geolocate_second_call_cached_witness:
  "geolocate (clock_at 2000) (FetchThrows (Error ''network down''))
      \<lparr>geoCache = cache_set (new_Cache (Some (5 * 60 * 1000))) 1000 ''8.8.8.8''
                    (lookup_answer ''8.8.8.8'' ''success''),
       rateLimiter = incrementRequests (new_FixedWindowLimiter 45 60000 0),
       fetched = [''8.8.8.8'']\<rparr> ''8.8.8.8''
    = (Inr \<lparr>p_data = lookup_answer ''8.8.8.8'' ''success'', p_rateLimit = None, p_source = ''cache''\<rparr>,
       \<lparr>geoCache = cache_set (new_Cache (Some (5 * 60 * 1000))) 1000 ''8.8.8.8''
                    (lookup_answer ''8.8.8.8'' ''success''),
       rateLimiter = incrementRequests (new_FixedWindowLimiter 45 60000 0),
       fetched = [''8.8.8.8'']\<rparr>)"
proof -
  have h4: "t_get (clock_at 2000) - t_set (clock_at 1000) \<le> ttl (geoCache (geo_initial 0))"
    by (simp add: clock_at_def geo_initial_def new_Cache_def)
  from geolocate_second_call_cached[OF first_call_example _ _ h4, of "FetchThrows (Error ''network down'')"]
  show ?thesis by (simp add: lookup_answer_def)
qed

text \<open>
  Claim C8 fails when the first lookup did not succeed: an answer with status \<open>fail\<close> is not
  cached, so the same query one second later is fetched again and reports source \<open>api\<close>.
\<close>

theorem geolocate_failed_lookup_counterexample:
  "map_sum id p_source (fst (geolocate (clock_at 2000)
       (FetchOk (lookup_answer ''nowhere.invalid'' ''fail'') None None)
       (snd (geolocate (clock_at 1000) (FetchOk (lookup_answer ''nowhere.invalid'' ''fail'') None None)
               (geo_initial 0) ''nowhere.invalid''))
       ''nowhere.invalid'')) = Inr ''api''
   \<and> fetched (snd (geolocate (clock_at 2000)
       (FetchOk (lookup_answer ''nowhere.invalid'' ''fail'') None None)
       (snd (geolocate (clock_at 1000) (FetchOk (lookup_answer ''nowhere.invalid'' ''fail'') None None)
               (geo_initial 0) ''nowhere.invalid''))
       ''nowhere.invalid'')) = [''nowhere.invalid'', ''nowhere.invalid'']"
  by (simp add: geolocate_def geo_initial_def clock_at_def cache_get_def new_Cache_def canMakeRequest_def
      new_FixedWindowLimiter_def fetchGeoData_def lookup_answer_def incrementRequests_def)


section \<open>The progress reporter\<close>

lemma report_effect:
  "report d i m p st =
     (Inr (), p\<lparr>pr_current := pr_current p + (case i of None \<Rightarrow> 1 | Some k \<Rightarrow> k)\<rparr>,
      after_send d (progress_params m (p\<lparr>pr_current := pr_current p + (case i of None \<Rightarrow> 1 | Some k \<Rightarrow> k)\<rparr>))
        ''Failed to send progress notification:'' st)"
  by (auto simp: report_def server_notification_def Let_def after_send_def split: option.splits)

lemma complete_effect:
  "complete d m p st =
     (Inr (), after_send d (complete_params m p) ''Failed to send completion notification:'' st)"
  by (auto simp: complete_def server_notification_def after_send_def split: option.splits)

lemma progress_error_effect:
  "progress_error d em p st =
     (Inr (), after_send d (ProgressError (pr_token p) em) ''Failed to send error notification:'' st)"
  by (auto simp: progress_error_def server_notification_def after_send_def split: option.splits)

lemma after_send_fields:
  "st_system (after_send d n l st) = st_system st"
  "st_network (after_send d n l st) = st_network st"
  "st_geo (after_send d n l st) = st_geo st"
  "invoked (after_send d n l st) = invoked st"
  "map fst (sent (after_send d n l st)) = map fst (sent st) @ [n]"
  "length (sent (after_send d n l st)) = Suc (length (sent st))"
  by (simp_all add: after_send_def)

lemma progress_params_not_terminal: "\<not> is_terminal (progress_params m p)"
  by (simp add: progress_params_def is_terminal_def)

lemma progress_params_token: "pr_token (p\<lparr>pr_current := c\<rparr>) = pr_token p"
  by simp

lemma run_reports_effect:
  "\<exists>ns. map fst (sent (snd (run_reports d rs p st))) = map fst (sent st) @ ns
        \<and> filter is_terminal ns = []
        \<and> st_system (snd (run_reports d rs p st)) = st_system st
        \<and> st_network (snd (run_reports d rs p st)) = st_network st
        \<and> st_geo (snd (run_reports d rs p st)) = st_geo st
        \<and> invoked (snd (run_reports d rs p st)) = invoked st
        \<and> pr_token (fst (run_reports d rs p st)) = pr_token p"
proof (induction rs arbitrary: p st)
  case Nil
  then show ?case by simp
next
  case (Cons r rs)
  obtain i m where r: "r = (i, m)" by (cases r)
  let ?p1 = "p\<lparr>pr_current := pr_current p + (case i of None \<Rightarrow> 1 | Some k \<Rightarrow> k)\<rparr>"
  let ?st1 = "after_send d (progress_params m ?p1) ''Failed to send progress notification:'' st"
  have step: "run_reports d (r # rs) p st = run_reports d rs ?p1 ?st1"
    by (simp add: r report_effect)
  from Cons.IH[of ?p1 ?st1] obtain ns where
    ns: "map fst (sent (snd (run_reports d rs ?p1 ?st1))) = map fst (sent ?st1) @ ns"
      "filter is_terminal ns = []"
      "st_system (snd (run_reports d rs ?p1 ?st1)) = st_system ?st1"
      "st_network (snd (run_reports d rs ?p1 ?st1)) = st_network ?st1"
      "st_geo (snd (run_reports d rs ?p1 ?st1)) = st_geo ?st1"
      "invoked (snd (run_reports d rs ?p1 ?st1)) = invoked ?st1"
      "pr_token (fst (run_reports d rs ?p1 ?st1)) = pr_token ?p1"
    by blast
  show ?case
    unfolding step
    by (rule exI[of _ "progress_params m ?p1 # ns"])
       (simp add: ns after_send_fields progress_params_not_terminal)
qed

text \<open>The reporter after the handler's reports does not depend on the transport.\<close>

lemma run_reports_reporter: "fst (run_reports d rs p st) = fst (run_reports d' rs p st')"
proof (induction rs arbitrary: p st st')
  case Nil
  then show ?case by simp
next
  case (Cons r rs)
  obtain i m where r: "r = (i, m)" by (cases r)
  show ?case by (simp add: r report_effect Cons.IH)
qed

lemma same_but_delivery_after_send:
  "same_but_delivery a b \<Longrightarrow> same_but_delivery (after_send d n l a) (after_send d' n l' b)"
  by (simp add: same_but_delivery_def after_send_fields)

lemma run_reports_same:
  "same_but_delivery a b \<Longrightarrow>
   same_but_delivery (snd (run_reports d rs p a)) (snd (run_reports d' rs p b))"
proof (induction rs arbitrary: p a b)
  case Nil
  then show ?case by simp
next
  case (Cons r rs)
  obtain i m where r: "r = (i, m)" by (cases r)
  show ?case
    by (simp add: r report_effect) (rule Cons.IH, rule same_but_delivery_after_send, rule Cons.prems)
qed


section \<open>The dispatcher\<close>

lemma callTool_catch:
  "callTool env st name =
     (case callTool_try env st name of (Inr r, st1) \<Rightarrow> (Inr r, st1) | (Inl e, st1) \<Rightarrow> (caught e, st1))"
  by (auto simp: callTool_def caught_def split: prod.splits sum.splits thrown.splits)

lemma callTool_unknown:
  assumes "allTools name = Undefined"
  shows "callTool env st name = (Inl (McpToolError MethodNotFound (''Tool not found: '' @ name) None), st)"
  using assms by (simp add: callTool_def callTool_try_def)

lemma callTool_rejected:
  assumes "allTools name \<noteq> Undefined"
    and "checkLimit (get_limiter (selectRateLimiter name) st) (ce_now env) name = Inl e"
  shows "callTool env st name = (Inl e, st)" "\<exists>m x. e = McpToolError InternalError m (Some (ResetInSeconds x))"
proof -
  from assms(2) show e: "\<exists>m x. e = McpToolError InternalError m (Some (ResetInSeconds x))"
    by (auto simp: checkLimit_def Let_def split: if_splits)
  have "callTool_try env st name = (Inl e, st)"
    using assms by (cases "allTools name") (simp_all add: callTool_try_def)
  with e show "callTool env st name = (Inl e, st)"
    by (auto simp: callTool_def)
qed

lemma callTool_own:
  assumes own: "allTools name = OwnTool n"
    and ok: "checkLimit (get_limiter (selectRateLimiter name) st) (ce_now env) name = Inr rl1"
  defines "p0 \<equiv> new_ProgressReporter (ce_token env)
       \<lparr>po_title = ''Executing '' @ name, po_total = None, po_unit = Some ''operations''\<rparr>"
  defines "st0 \<equiv> (set_limiter (selectRateLimiter name) rl1 st)\<lparr>invoked := invoked st @ [n]\<rparr>"
  defines "p1 \<equiv> fst (run_reports (ce_deliver env) (hr_reports (ce_handler env)) p0 st0)"
  defines "st1 \<equiv> snd (run_reports (ce_deliver env) (hr_reports (ce_handler env)) p0 st0)"
  shows "callTool env st name =
     (case hr_outcome (ce_handler env) of
        Inr res \<Rightarrow>
          (Inr \<lparr>sr_content = tr_content res, sr_meta_isError = tr_isError res\<rparr>,
           after_send (ce_deliver env) (complete_params None p1)
             ''Failed to send completion notification:'' st1)
      | Inl e \<Rightarrow>
          (caught e,
           after_send (ce_deliver env) (ProgressError (pr_token p1) (thrown_message e))
             ''Failed to send error notification:'' st1))"
proof -
  have inv: "invoked (set_limiter (selectRateLimiter name) rl1 st) = invoked st"
    by (simp add: set_limiter_def split: limiter_id.splits)
  have ih: "invoke_handler (OwnTool n) env p0 (set_limiter (selectRateLimiter name) rl1 st)
      = (hr_outcome (ce_handler env), p1, st1)"
    by (simp add: invoke_handler_def inv p1_def st1_def st0_def split: prod.splits)
  have top: "tool_operation (OwnTool n) env p0 (set_limiter (selectRateLimiter name) rl1 st)
      = (case hr_outcome (ce_handler env) of
           Inr res \<Rightarrow> (Inr res, p1, after_send (ce_deliver env) (complete_params None p1)
             ''Failed to send completion notification:'' st1)
         | Inl e \<Rightarrow> (Inl e, p1, st1))"
    by (simp add: tool_operation_def ih complete_effect split: sum.splits)
  have wp: "withProgress (ce_deliver env) (ce_token env)
       \<lparr>po_title = ''Executing '' @ name, po_total = None, po_unit = Some ''operations''\<rparr>
       (tool_operation (OwnTool n) env) (set_limiter (selectRateLimiter name) rl1 st)
      = (case hr_outcome (ce_handler env) of
           Inr res \<Rightarrow> (Inr res, after_send (ce_deliver env) (complete_params None p1)
             ''Failed to send completion notification:'' st1)
         | Inl e \<Rightarrow> (Inl e, after_send (ce_deliver env) (ProgressError (pr_token p1) (thrown_message e))
             ''Failed to send error notification:'' st1))"
    unfolding withProgress_def Let_def p0_def[symmetric] top
    by (simp add: progress_error_effect split: sum.splits)
  have "callTool_try env st name
      = (case hr_outcome (ce_handler env) of
           Inr res \<Rightarrow> (Inr \<lparr>sr_content = tr_content res, sr_meta_isError = tr_isError res\<rparr>,
             after_send (ce_deliver env) (complete_params None p1)
             ''Failed to send completion notification:'' st1)
         | Inl e \<Rightarrow> (Inl e, after_send (ce_deliver env) (ProgressError (pr_token p1) (thrown_message e))
             ''Failed to send error notification:'' st1))"
    by (simp only: callTool_try_def own lookup.case Let_def ok sum.case wp)
       (simp split: sum.splits)
  then show ?thesis
    by (simp add: callTool_catch split: sum.splits)
qed

lemma callTool_inherited:
  assumes inh: "allTools name = Inherited"
    and ok: "checkLimit (get_limiter (selectRateLimiter name) st) (ce_now env) name = Inr rl1"
  shows "callTool env st name =
     (Inr \<lparr>sr_content = [\<lparr>ctype = ''text'', ctext = ''Internal error: tool.handler is not a function''\<rparr>],
            sr_meta_isError = True\<rparr>,
      after_send (ce_deliver env) (ProgressError (ce_token env) ''tool.handler is not a function'')
        ''Failed to send error notification:'' (set_limiter (selectRateLimiter name) rl1 st))"
proof -
  let ?opts = "\<lparr>po_title = ''Executing '' @ name, po_total = None, po_unit = Some ''operations''\<rparr>"
  have top: "tool_operation Inherited env p s = (Inl (Error ''tool.handler is not a function''), p, s)" for p s
    by (simp add: tool_operation_def invoke_handler_def)
  have wp: "withProgress (ce_deliver env) (ce_token env) ?opts (tool_operation Inherited env)
        (set_limiter (selectRateLimiter name) rl1 st)
      = (Inl (Error ''tool.handler is not a function''),
         after_send (ce_deliver env) (ProgressError (ce_token env) ''tool.handler is not a function'')
           ''Failed to send error notification:'' (set_limiter (selectRateLimiter name) rl1 st))"
    unfolding withProgress_def Let_def top
    by (simp add: progress_error_effect new_ProgressReporter_def thrown_message_def)
  have "callTool_try env st name
      = (Inl (Error ''tool.handler is not a function''),
         after_send (ce_deliver env) (ProgressError (ce_token env) ''tool.handler is not a function'')
           ''Failed to send error notification:'' (set_limiter (selectRateLimiter name) rl1 st))"
    by (simp only: callTool_try_def inh lookup.case Let_def ok sum.case wp) simp
  then show ?thesis
    by (simp add: callTool_catch caught_def handleToolError_def)
qed

lemma new_reporter_token: "pr_token (new_ProgressReporter tok opts) = tok"
  by (simp add: new_ProgressReporter_def)

lemma set_limiter_fields:
  "sent (set_limiter l rl st) = sent st" "invoked (set_limiter l rl st) = invoked st"
  "console (set_limiter l rl st) = console st"
  by (simp_all add: set_limiter_def split: limiter_id.splits)

lemma allTools_examples:
  "allTools ''getSystemInfo'' = OwnTool ''getSystemInfo''"
  "allTools ''pingHost'' = OwnTool ''pingHost''"
  "allTools ''geolocate'' = OwnTool ''geolocate''"
  "allTools ''noSuchTool'' = Undefined"
  "allTools ''constructor'' = Inherited"
  by (simp_all add: allTools_def registered_def object_prototype_properties_def)

lemma select_examples:
  "selectRateLimiter ''getSystemInfo'' = SystemLimiter"
  "selectRateLimiter ''pingHost'' = SystemLimiter"
  "selectRateLimiter ''geolocate'' = GeoLimiter"
  "selectRateLimiter ''constructor'' = SystemLimiter"
  by (simp_all add: selectRateLimiter_def startsWith_def)

lemma initial_limiters:
  "get_limiter SystemLimiter initial_state = systemRateLimiter"
  "get_limiter GeoLimiter geo_exhausted
     = geoRateLimiter\<lparr>requests := (requests geoRateLimiter)(''geolocate'' \<mapsto> replicate 45 0)\<rparr>"
  "sent initial_state = []" "invoked initial_state = []" "console initial_state = []"
  by (simp_all add: get_limiter_def initial_state_def geo_exhausted_def)

lemma first_call_admitted:
  "checkLimit systemRateLimiter 1000 name
     = Inr (systemRateLimiter\<lparr>requests := (requests systemRateLimiter)(name \<mapsto> [1000])\<rparr>)"
  by (simp add: checkLimit_def validTimestamps_def timestamps_of_def systemRateLimiter_def
      new_RateLimiter_def)

lemma replicate_45: "replicate 45 (0::int) = 0 # replicate 44 0"
  by (simp add: replicate_Suc[symmetric] del: replicate_Suc)

lemma call_46_rejected:
  "checkLimit (geoRateLimiter\<lparr>requests := (requests geoRateLimiter)(''geolocate'' \<mapsto> replicate 45 0)\<rparr>)
      1000 ''geolocate''
     = Inl (McpToolError InternalError ''IP-API rate limit exceeded. Please try again in a moment.''
             (Some (ResetInSeconds (Num 59))))"
  by (simp add: checkLimit_def validTimestamps_def timestamps_of_def geoRateLimiter_def
      new_RateLimiter_def replicate_45 ceil_div1000_def)

text \<open>
  Claim C2. When the name is a registered tool and the rate limiter admits the call, so
  that the handler is invoked (once), the notifications the call hands to the transport
  hold exactly one terminal one: a completion notification with the call's token when
  the handler returns, an error notification with the token and the error's message
  (\<open>Unknown error\<close> for a thrown value that is not an \<open>Error\<close>) when it throws.
\<close>

theorem one_terminal_notification:
  assumes own: "allTools name = OwnTool n"
    and ok: "checkLimit (get_limiter (selectRateLimiter name) st) (ce_now env) name = Inr rl1"
  shows "\<exists>ns. map fst (sent (snd (callTool env st name))) = map fst (sent st) @ ns
      \<and> (case hr_outcome (ce_handler env) of
           Inr res \<Rightarrow> (\<exists>msg. filter is_terminal ns = [ProgressComplete (ce_token env) msg])
         | Inl e \<Rightarrow> filter is_terminal ns = [ProgressError (ce_token env) (thrown_message e)])
      \<and> invoked (snd (callTool env st name)) = invoked st @ [n]"
proof -
  define p0 where "p0 = new_ProgressReporter (ce_token env)
       \<lparr>po_title = ''Executing '' @ name, po_total = None, po_unit = Some ''operations''\<rparr>"
  define st0 where "st0 = (set_limiter (selectRateLimiter name) rl1 st)\<lparr>invoked := invoked st @ [n]\<rparr>"
  define p1 where "p1 = fst (run_reports (ce_deliver env) (hr_reports (ce_handler env)) p0 st0)"
  define st1 where "st1 = snd (run_reports (ce_deliver env) (hr_reports (ce_handler env)) p0 st0)"
  from run_reports_effect[of "ce_deliver env" "hr_reports (ce_handler env)" p0 st0]
  obtain ns where ns: "map fst (sent st1) = map fst (sent st0) @ ns"
    "filter is_terminal ns = []" "invoked st1 = invoked st0" "pr_token p1 = pr_token p0"
    unfolding p1_def st1_def by blast
  have tok: "pr_token p1 = ce_token env"
    by (simp only: ns(4) p0_def new_reporter_token)
  have s0: "map fst (sent st0) = map fst (sent st)" "invoked st0 = invoked st @ [n]"
    by (simp_all add: st0_def set_limiter_fields)
  have ct: "callTool env st name =
     (case hr_outcome (ce_handler env) of
        Inr res \<Rightarrow>
          (Inr \<lparr>sr_content = tr_content res, sr_meta_isError = tr_isError res\<rparr>,
           after_send (ce_deliver env) (complete_params None p1)
             ''Failed to send completion notification:'' st1)
      | Inl e \<Rightarrow>
          (caught e,
           after_send (ce_deliver env) (ProgressError (pr_token p1) (thrown_message e))
             ''Failed to send error notification:'' st1))"
    unfolding p1_def st1_def p0_def st0_def by (rule callTool_own[OF own ok])
  show ?thesis
  proof (cases "hr_outcome (ce_handler env)")
    case (Inl e)
    have "map fst (sent (snd (callTool env st name)))
        = map fst (sent st) @ (ns @ [ProgressError (ce_token env) (thrown_message e)])"
      by (simp add: ct Inl after_send_fields ns(1,2,3) s0 tok)
    moreover have "filter is_terminal (ns @ [ProgressError (ce_token env) (thrown_message e)])
        = [ProgressError (ce_token env) (thrown_message e)]"
      by (simp add: ns(2) is_terminal_def)
    moreover have "invoked (snd (callTool env st name)) = invoked st @ [n]"
      by (simp add: ct Inl after_send_fields ns(1,2,3) s0)
    ultimately show ?thesis using Inl by auto
  next
    case (Inr res)
    obtain msg where msg: "complete_params None p1 = ProgressComplete (ce_token env) msg"
      by (simp add: complete_params_def tok)
    have "map fst (sent (snd (callTool env st name)))
        = map fst (sent st) @ (ns @ [ProgressComplete (ce_token env) msg])"
      by (simp add: ct Inr after_send_fields ns(1,2,3) s0 msg)
    moreover have "filter is_terminal (ns @ [ProgressComplete (ce_token env) msg])
        = [ProgressComplete (ce_token env) msg]"
      by (simp add: ns(2) is_terminal_def)
    moreover have "invoked (snd (callTool env st name)) = invoked st @ [n]"
      by (simp add: ct Inr after_send_fields ns(1,2,3) s0)
    ultimately show ?thesis using Inr by auto
  qed
qed

theorem one_terminal_notification_witness:
  "(\<exists>ns. map fst (sent (snd (callTool (example_env 1000 (returning ''ok'')) initial_state ''getSystemInfo'')))
          = map fst (sent initial_state) @ ns
      \<and> (\<exists>msg. filter is_terminal ns = [ProgressComplete ''progress-1'' msg])
      \<and> invoked (snd (callTool (example_env 1000 (returning ''ok'')) initial_state ''getSystemInfo''))
          = invoked initial_state @ [''getSystemInfo''])
   \<and> (\<exists>ns. map fst (sent (snd (callTool (example_env 1000 (throwing ''boom'')) initial_state ''pingHost'')))
          = map fst (sent initial_state) @ ns
      \<and> filter is_terminal ns = [ProgressError ''progress-1'' ''boom'']
      \<and> invoked (snd (callTool (example_env 1000 (throwing ''boom'')) initial_state ''pingHost''))
          = invoked initial_state @ [''pingHost''])"
proof -
  have ok1: "checkLimit (get_limiter (selectRateLimiter ''getSystemInfo'') initial_state)
      (ce_now (example_env 1000 (returning ''ok''))) ''getSystemInfo''
     = Inr (systemRateLimiter\<lparr>requests := (requests systemRateLimiter)(''getSystemInfo'' \<mapsto> [1000])\<rparr>)"
    by (simp add: select_examples initial_limiters first_call_admitted example_env_def)
  have ok2: "checkLimit (get_limiter (selectRateLimiter ''pingHost'') initial_state)
      (ce_now (example_env 1000 (throwing ''boom''))) ''pingHost''
     = Inr (systemRateLimiter\<lparr>requests := (requests systemRateLimiter)(''pingHost'' \<mapsto> [1000])\<rparr>)"
    by (simp add: select_examples initial_limiters first_call_admitted example_env_def)
  from one_terminal_notification[OF allTools_examples(1) ok1]
  have a: "\<exists>ns. map fst (sent (snd (callTool (example_env 1000 (returning ''ok'')) initial_state ''getSystemInfo'')))
          = map fst (sent initial_state) @ ns
      \<and> (\<exists>msg. filter is_terminal ns = [ProgressComplete ''progress-1'' msg])
      \<and> invoked (snd (callTool (example_env 1000 (returning ''ok'')) initial_state ''getSystemInfo''))
          = invoked initial_state @ [''getSystemInfo'']"
    by (simp add: example_env_def returning_def)
  from one_terminal_notification[OF allTools_examples(2) ok2]
  have b: "\<exists>ns. map fst (sent (snd (callTool (example_env 1000 (throwing ''boom'')) initial_state ''pingHost'')))
          = map fst (sent initial_state) @ ns
      \<and> filter is_terminal ns = [ProgressError ''progress-1'' ''boom'']
      \<and> invoked (snd (callTool (example_env 1000 (throwing ''boom'')) initial_state ''pingHost''))
          = invoked initial_state @ [''pingHost'']"
    by (simp add: example_env_def throwing_def thrown_message_def)
  from a b show ?thesis by (rule conjI)
qed

text \<open>
  Claim C3, as the code has it. A call ends in exactly one outcome. An unknown name ends
  in a thrown \<open>McpToolError\<close> with code \<open>MethodNotFound\<close>, and a rejection by the limiter
  in the thrown \<open>McpToolError\<close> of \<open>checkLimit\<close>, both with the state unchanged; neither is
  turned into a result. An error thrown by the handler of a registered tool is thrown
  again when it is a \<open>McpToolError\<close>, and otherwise becomes the result
  \<open>{content: [{type: 'text', text: 'Internal error: ' + message}], _meta: {isError: true}}\<close>.
\<close>

theorem failure_outcomes:
  "(allTools name = Undefined \<longrightarrow>
      callTool env st name = (Inl (McpToolError MethodNotFound (''Tool not found: '' @ name) None), st))
   \<and> (allTools name = OwnTool n
        \<and> checkLimit (get_limiter (selectRateLimiter name) st) (ce_now env) name = Inl e \<longrightarrow>
      callTool env st name = (Inl e, st)
      \<and> (\<exists>m x. e = McpToolError InternalError m (Some (ResetInSeconds x))))
   \<and> (allTools name = OwnTool n
        \<and> checkLimit (get_limiter (selectRateLimiter name) st) (ce_now env) name = Inr rl1
        \<and> hr_outcome (ce_handler env) = Inl err \<longrightarrow>
      fst (callTool env st name) =
        (case err of
           McpToolError c m d \<Rightarrow> Inl err
         | Error m \<Rightarrow> Inr \<lparr>sr_content = [\<lparr>ctype = ''text'', ctext = ''Internal error: '' @ m\<rparr>],
                             sr_meta_isError = True\<rparr>
         | NonError \<Rightarrow> Inr \<lparr>sr_content = [\<lparr>ctype = ''text'', ctext = ''Internal error: Unknown error''\<rparr>],
                              sr_meta_isError = True\<rparr>))"
proof -
  have a: "allTools name = Undefined \<longrightarrow>
      callTool env st name = (Inl (McpToolError MethodNotFound (''Tool not found: '' @ name) None), st)"
    by (simp add: callTool_unknown)
  have b: "allTools name = OwnTool n
        \<and> checkLimit (get_limiter (selectRateLimiter name) st) (ce_now env) name = Inl e \<longrightarrow>
      callTool env st name = (Inl e, st)
      \<and> (\<exists>m x. e = McpToolError InternalError m (Some (ResetInSeconds x)))"
    using callTool_rejected[of name st env e] by auto
  have c: "allTools name = OwnTool n
        \<and> checkLimit (get_limiter (selectRateLimiter name) st) (ce_now env) name = Inr rl1
        \<and> hr_outcome (ce_handler env) = Inl err \<longrightarrow>
      fst (callTool env st name) =
        (case err of
           McpToolError c m d \<Rightarrow> Inl err
         | Error m \<Rightarrow> Inr \<lparr>sr_content = [\<lparr>ctype = ''text'', ctext = ''Internal error: '' @ m\<rparr>],
                             sr_meta_isError = True\<rparr>
         | NonError \<Rightarrow> Inr \<lparr>sr_content = [\<lparr>ctype = ''text'', ctext = ''Internal error: Unknown error''\<rparr>],
                              sr_meta_isError = True\<rparr>)"
  proof (intro impI, elim conjE)
    assume own: "allTools name = OwnTool n"
      and ok: "checkLimit (get_limiter (selectRateLimiter name) st) (ce_now env) name = Inr rl1"
      and thr: "hr_outcome (ce_handler env) = Inl err"
    show "fst (callTool env st name) =
        (case err of
           McpToolError c m d \<Rightarrow> Inl err
         | Error m \<Rightarrow> Inr \<lparr>sr_content = [\<lparr>ctype = ''text'', ctext = ''Internal error: '' @ m\<rparr>],
                             sr_meta_isError = True\<rparr>
         | NonError \<Rightarrow> Inr \<lparr>sr_content = [\<lparr>ctype = ''text'', ctext = ''Internal error: Unknown error''\<rparr>],
                              sr_meta_isError = True\<rparr>)"
      by (simp add: callTool_own[OF own ok] thr caught_def handleToolError_def split: thrown.splits)
  qed
  from a b c show ?thesis by blast
qed
theorem failure_outcomes_witness:
  "callTool (example_env 1000 (returning ''ok'')) initial_state ''noSuchTool''
     = (Inl (McpToolError MethodNotFound ''Tool not found: noSuchTool'' None), initial_state)
   \<and> callTool (example_env 1000 (returning ''ok'')) geo_exhausted ''geolocate''
     = (Inl (McpToolError InternalError ''IP-API rate limit exceeded. Please try again in a moment.''
              (Some (ResetInSeconds (Num 59)))), geo_exhausted)
   \<and> fst (callTool (example_env 1000 (throwing ''boom'')) initial_state ''pingHost'')
     = Inr \<lparr>sr_content = [\<lparr>ctype = ''text'', ctext = ''Internal error: boom''\<rparr>], sr_meta_isError = True\<rparr>"
proof -
  let ?e = "McpToolError InternalError ''IP-API rate limit exceeded. Please try again in a moment.''
              (Some (ResetInSeconds (Num 59)))"
  have no: "checkLimit (get_limiter (selectRateLimiter ''geolocate'') geo_exhausted)
      (ce_now (example_env 1000 (returning ''ok''))) ''geolocate'' = Inl ?e"
    by (simp add: select_examples initial_limiters call_46_rejected example_env_def)
  have ok: "checkLimit (get_limiter (selectRateLimiter ''pingHost'') initial_state)
      (ce_now (example_env 1000 (throwing ''boom''))) ''pingHost''
     = Inr (systemRateLimiter\<lparr>requests := (requests systemRateLimiter)(''pingHost'' \<mapsto> [1000])\<rparr>)"
    by (simp add: select_examples initial_limiters first_call_admitted example_env_def)
  have thr: "hr_outcome (ce_handler (example_env 1000 (throwing ''boom''))) = Inl (Error ''boom'')"
    by (simp add: example_env_def throwing_def)
  have a: "callTool (example_env 1000 (returning ''ok'')) initial_state ''noSuchTool''
     = (Inl (McpToolError MethodNotFound ''Tool not found: noSuchTool'' None), initial_state)"
    using failure_outcomes[of "''noSuchTool''" "example_env 1000 (returning ''ok'')" initial_state]
      allTools_examples(4) by simp
  have b: "callTool (example_env 1000 (returning ''ok'')) geo_exhausted ''geolocate'' = (Inl ?e, geo_exhausted)"
    using failure_outcomes[of "''geolocate''" "example_env 1000 (returning ''ok'')" geo_exhausted
        "''geolocate''" ?e] allTools_examples(3) no by blast
  have c: "fst (callTool (example_env 1000 (throwing ''boom'')) initial_state ''pingHost'')
     = Inr \<lparr>sr_content = [\<lparr>ctype = ''text'', ctext = ''Internal error: boom''\<rparr>], sr_meta_isError = True\<rparr>"
    using failure_outcomes[of "''pingHost''" "example_env 1000 (throwing ''boom'')" initial_state
        "''pingHost''" _ _ "Error ''boom''"] allTools_examples(2) ok thr by simp
  from a b c show ?thesis by (intro conjI)
qed

text \<open>
  Claim C3 fails for an unknown name: the call throws the \<open>McpToolError\<close>, and no result is
  returned.
\<close>

theorem unknown_tool_thrown_counterexample:
  "fst (callTool (example_env 1000 (returning ''ok'')) initial_state ''noSuchTool'')
     = Inl (McpToolError MethodNotFound ''Tool not found: noSuchTool'' None)"
  by (simp add: callTool_unknown allTools_examples)

text \<open>
  Claim C4 at the name \<open>constructor\<close>, which is not a key of the registry but is found on
  \<open>Object.prototype\<close>: the lookup is truthy, the system limiter records the call, the call of
  the absent handler throws, and the caller gets an error result instead of
  \<open>MethodNotFound\<close>. No handler runs.
\<close>

theorem prototype_name_passes_lookup:
  "''constructor'' \<notin> set registered
   \<and> fst (callTool (example_env 1000 (returning ''ok'')) initial_state ''constructor'')
       = Inr \<lparr>sr_content = [\<lparr>ctype = ''text'', ctext = ''Internal error: tool.handler is not a function''\<rparr>],
              sr_meta_isError = True\<rparr>
   \<and> timestamps_of (st_system (snd (callTool (example_env 1000 (returning ''ok'')) initial_state
         ''constructor''))) ''constructor'' = [1000]
   \<and> timestamps_of (st_system initial_state) ''constructor'' = []
   \<and> invoked (snd (callTool (example_env 1000 (returning ''ok'')) initial_state ''constructor'')) = []"
proof -
  have ok: "checkLimit (get_limiter (selectRateLimiter ''constructor'') initial_state)
      (ce_now (example_env 1000 (returning ''ok''))) ''constructor''
     = Inr (systemRateLimiter\<lparr>requests := (requests systemRateLimiter)(''constructor'' \<mapsto> [1000])\<rparr>)"
    by (simp add: select_examples initial_limiters first_call_admitted example_env_def)
  note ct = callTool_inherited[OF allTools_examples(5) ok]
  have a: "''constructor'' \<notin> set registered"
    by (simp add: registered_def)
  have b: "timestamps_of (st_system initial_state) ''constructor'' = []"
    by (simp add: timestamps_of_def initial_state_def systemRateLimiter_def new_RateLimiter_def)
  have c: "fst (callTool (example_env 1000 (returning ''ok'')) initial_state ''constructor'')
       = Inr \<lparr>sr_content = [\<lparr>ctype = ''text'', ctext = ''Internal error: tool.handler is not a function''\<rparr>],
              sr_meta_isError = True\<rparr>"
    by (simp only: ct fst_conv)
  have d: "timestamps_of (st_system (snd (callTool (example_env 1000 (returning ''ok'')) initial_state
         ''constructor''))) ''constructor'' = [1000]"
    by (simp only: ct snd_conv after_send_fields select_examples)
       (simp add: set_limiter_def timestamps_of_def)
  have e: "invoked (snd (callTool (example_env 1000 (returning ''ok'')) initial_state ''constructor'')) = []"
    by (simp only: ct snd_conv after_send_fields set_limiter_fields initial_limiters)
  from a c d b e show ?thesis by (intro conjI)
qed
section \<open>Notification failures\<close>

lemma with_deliver_fields:
  "ce_now (env\<lparr>ce_deliver := d\<rparr>) = ce_now env"
  "ce_token (env\<lparr>ce_deliver := d\<rparr>) = ce_token env"
  "ce_handler (env\<lparr>ce_deliver := d\<rparr>) = ce_handler env"
  "ce_deliver (env\<lparr>ce_deliver := d\<rparr>) = d"
  by simp_all

lemma same_but_delivery_refl: "same_but_delivery st st"
  by (simp add: same_but_delivery_def)

lemma same_but_delivery_invoked:
  "same_but_delivery (st\<lparr>invoked := xs\<rparr>) (st\<lparr>invoked := xs\<rparr>)"
  by (simp add: same_but_delivery_def)

lemma callTool_delivery_independent:
  "fst (callTool (env\<lparr>ce_deliver := d\<rparr>) st name) = fst (callTool (env\<lparr>ce_deliver := d'\<rparr>) st name)
   \<and> same_but_delivery (snd (callTool (env\<lparr>ce_deliver := d\<rparr>) st name))
        (snd (callTool (env\<lparr>ce_deliver := d'\<rparr>) st name))"
proof (cases "allTools name")
  case Undefined
  then show ?thesis by (simp add: callTool_unknown same_but_delivery_refl)
next
  case (OwnTool n)
  show ?thesis
  proof (cases "checkLimit (get_limiter (selectRateLimiter name) st) (ce_now env) name")
    case (Inl e)
    have "callTool (env\<lparr>ce_deliver := x\<rparr>) st name = (Inl e, st)" for x
      by (rule callTool_rejected(1)) (simp_all add: OwnTool Inl)
    then show ?thesis by (simp add: same_but_delivery_refl)
  next
    case (Inr rl1)
    define p0 where "p0 = new_ProgressReporter (ce_token env)
       \<lparr>po_title = ''Executing '' @ name, po_total = None, po_unit = Some ''operations''\<rparr>"
    define st0 where "st0 = (set_limiter (selectRateLimiter name) rl1 st)\<lparr>invoked := invoked st @ [n]\<rparr>"
    define p1 where "p1 = (\<lambda>x. fst (run_reports x (hr_reports (ce_handler env)) p0 st0))"
    define st1 where "st1 = (\<lambda>x. snd (run_reports x (hr_reports (ce_handler env)) p0 st0))"
    have ct: "callTool (env\<lparr>ce_deliver := x\<rparr>) st name =
       (case hr_outcome (ce_handler env) of
          Inr res \<Rightarrow>
            (Inr \<lparr>sr_content = tr_content res, sr_meta_isError = tr_isError res\<rparr>,
             after_send x (complete_params None (p1 x))
               ''Failed to send completion notification:'' (st1 x))
        | Inl e \<Rightarrow>
            (caught e,
             after_send x (ProgressError (pr_token (p1 x)) (thrown_message e))
               ''Failed to send error notification:'' (st1 x)))" for x
      using callTool_own[of name n st "env\<lparr>ce_deliver := x\<rparr>" rl1] OwnTool Inr
      unfolding p1_def st1_def p0_def st0_def with_deliver_fields by simp
    have p: "p1 d = p1 d'"
      unfolding p1_def by (rule run_reports_reporter)
    have s: "same_but_delivery (st1 d) (st1 d')"
      unfolding st1_def by (rule run_reports_same[OF same_but_delivery_refl])
    show ?thesis
      by (cases "hr_outcome (ce_handler env)")
         (simp_all add: ct p same_but_delivery_after_send[OF s])
  qed
next
  case Inherited
  show ?thesis
  proof (cases "checkLimit (get_limiter (selectRateLimiter name) st) (ce_now env) name")
    case (Inl e)
    have "callTool (env\<lparr>ce_deliver := x\<rparr>) st name = (Inl e, st)" for x
      by (rule callTool_rejected(1)) (simp_all add: Inherited Inl)
    then show ?thesis by (simp add: same_but_delivery_refl)
  next
    case (Inr rl1)
    have ct: "callTool (env\<lparr>ce_deliver := x\<rparr>) st name =
     (Inr \<lparr>sr_content = [\<lparr>ctype = ''text'', ctext = ''Internal error: tool.handler is not a function''\<rparr>],
            sr_meta_isError = True\<rparr>,
      after_send x (ProgressError (ce_token env) ''tool.handler is not a function'')
        ''Failed to send error notification:'' (set_limiter (selectRateLimiter name) rl1 st))" for x
      using callTool_inherited[of name st "env\<lparr>ce_deliver := x\<rparr>" rl1] Inherited Inr
      by simp
    show ?thesis
      by (simp add: ct same_but_delivery_after_send[OF same_but_delivery_refl])
  qed
qed

lemma after_send_console:
  "d (length (sent st)) n = Some e \<Longrightarrow> console (after_send d n l st) = console st @ [(l, e)]"
  "d (length (sent st)) n = None \<Longrightarrow> console (after_send d n l st) = console st"
  by (simp_all add: after_send_def)

text \<open>
  Claim C6. \<open>report\<close>, \<open>complete\<close> and \<open>error\<close> resolve whatever the transport does; when
  the send is rejected the error is written to the console. The outcome of a call of the
  dispatcher is the same under any two transports, and the states after it differ at most
  in which sends succeeded and in the console.
\<close>

theorem notification_failure_swallowed:
  "fst (report d i m p st) = Inr ()
   \<and> fst (complete d m p st) = Inr ()
   \<and> fst (progress_error d em p st) = Inr ()
   \<and> (d (length (sent st)) (complete_params m p) = Some e \<longrightarrow>
        console (snd (complete d m p st))
          = console st @ [(''Failed to send completion notification:'', e)])
   \<and> (d (length (sent st)) (ProgressError (pr_token p) em) = Some e \<longrightarrow>
        console (snd (progress_error d em p st))
          = console st @ [(''Failed to send error notification:'', e)])
   \<and> (d (length (sent st))
          (progress_params m (p\<lparr>pr_current := pr_current p + (case i of None \<Rightarrow> 1 | Some k \<Rightarrow> k)\<rparr>))
        = Some e \<longrightarrow>
        console (snd (snd (report d i m p st)))
          = console st @ [(''Failed to send progress notification:'', e)])
   \<and> fst (callTool (env\<lparr>ce_deliver := d\<rparr>) st name) = fst (callTool (env\<lparr>ce_deliver := d'\<rparr>) st name)
   \<and> same_but_delivery (snd (callTool (env\<lparr>ce_deliver := d\<rparr>) st name))
        (snd (callTool (env\<lparr>ce_deliver := d'\<rparr>) st name))"
  using callTool_delivery_independent[of d env st name d']
  by (simp add: report_effect complete_effect progress_error_effect after_send_console)

theorem notification_failure_swallowed_witness:
  "fst (complete (\<lambda>i n. Some (Error ''closed'')) None
          (new_ProgressReporter ''progress-1'' \<lparr>po_title = ''t'', po_total = None, po_unit = None\<rparr>)
          initial_state) = Inr ()
   \<and> console (snd (complete (\<lambda>i n. Some (Error ''closed'')) None
          (new_ProgressReporter ''progress-1'' \<lparr>po_title = ''t'', po_total = None, po_unit = None\<rparr>)
          initial_state))
       = [(''Failed to send completion notification:'', Error ''closed'')]
   \<and> console (snd (progress_error (\<lambda>i n. Some (Error ''closed'')) ''boom''
          (new_ProgressReporter ''progress-1'' \<lparr>po_title = ''t'', po_total = None, po_unit = None\<rparr>)
          initial_state))
       = [(''Failed to send error notification:'', Error ''closed'')]
   \<and> console (snd (snd (report (\<lambda>i n. Some (Error ''closed'')) None None
          (new_ProgressReporter ''progress-1'' \<lparr>po_title = ''t'', po_total = None, po_unit = None\<rparr>)
          initial_state)))
       = [(''Failed to send progress notification:'', Error ''closed'')]
   \<and> fst (callTool ((example_env 1000 (returning ''ok''))\<lparr>ce_deliver := (\<lambda>i n. Some (Error ''closed''))\<rparr>)
          initial_state ''getSystemInfo'')
       = fst (callTool ((example_env 1000 (returning ''ok''))\<lparr>ce_deliver := (\<lambda>i n. None)\<rparr>)
          initial_state ''getSystemInfo'')"
  using notification_failure_swallowed[of "\<lambda>i n. Some (Error ''closed'')" None None
      "new_ProgressReporter ''progress-1'' \<lparr>po_title = ''t'', po_total = None, po_unit = None\<rparr>"
      initial_state "''boom''" "Error ''closed''" "example_env 1000 (returning ''ok'')"
      "''getSystemInfo''" "\<lambda>i n. None"]
  by (simp add: initial_limiters)
section \<open>Which limiter a tool uses\<close>







section \<open>The timezone listing\<close>

text \<open>
  Claim C10. \<open>listTimezones\<close> returns the same for every \<open>region\<close> as for none: the whole
  list of supported zones, without duplicates.
\<close>

theorem listTimezones_ignores_region:
  "listTimezones supported region = listTimezones supported None
   \<and> (supported = Inr vals \<longrightarrow> listTimezones supported region = Inr (uniq vals))"
  by (simp add: listTimezones_def split: sum.splits)

lemma uniq_example:
  "uniq [''America/New_York'', ''Europe/Paris'', ''America/New_York'']
     = [''America/New_York'', ''Europe/Paris'']"
  by (simp add: uniq_def)

lemma filteredZones_example:
  "filteredZones_of [''America/New_York'', ''Europe/Paris'', ''America/New_York''] (Some ''Europe'')
     = [''Europe/Paris'']"
  by (simp add: filteredZones_of_def uniq_example startsWith_def)

theorem listTimezones_ignores_region_witness:
  "listTimezones (Inr [''America/New_York'', ''Europe/Paris'', ''America/New_York'']) (Some ''Europe'')
     = Inr [''America/New_York'', ''Europe/Paris'']
   \<and> listTimezones (Inr [''America/New_York'', ''Europe/Paris'', ''America/New_York'']) (Some ''Europe'')
     = listTimezones (Inr [''America/New_York'', ''Europe/Paris'', ''America/New_York'']) None"
  using listTimezones_ignores_region[of
      "Inr [''America/New_York'', ''Europe/Paris'', ''America/New_York'']" "Some ''Europe''"
      "[''America/New_York'', ''Europe/Paris'', ''America/New_York'']"]
  by (auto simp: uniq_example)


end
